theory Spec2Isabelle
  imports Complex_Main "HOL-Library.Word"
begin

section \<open>JarvisStreamer: a shallow embedding of the Go sources\<close>

text \<open>
  Conventions of the embedding.
  \<^item> A Go \<^verbatim>\<open>float64\<close> is modelled by the real number it denotes. Every float64
    operation of the source (\<open>+\<close>, \<open>-\<close>, \<open>*\<close>, \<open>/\<close>, a conversion from an integer, a
    decimal literal or a parsed decimal) is the exact operation followed by \<open>rnd64\<close>,
    the IEEE-754 binary64 rounding to nearest, ties to even. There is no NaN, no
    signed zero and no infinity: a rounded value of magnitude \<open>2^1024\<close> or more stands
    for an overflow, and the evaluator, the one place where such a value could flow
    on into further arithmetic, leaves the model there.
  \<^item> A Go \<^verbatim>\<open>string\<close> is a byte list (\<open>string\<close>); non-ASCII characters of the Spanish
    messages are written as their UTF-8 bytes.
  \<^item> A Go \<^verbatim>\<open>(T, error)\<close> result is a pair with an \<open>option\<close> error, or a sum
    \<open>error + T\<close> where the value is meaningless when the error is set. A run-time panic
    is an error value of its own.
  \<^item> Calls that leave the process (HTTP, WebSocket, speech engines, the file system)
    take their outcome from an explicit environment argument and record what was sent.
\<close>

type_synonym float64 = real
type_synonym int16 = "16 word"

subsection \<open>Decimal formatting helpers (package fmt)\<close>

definition digitChar :: "nat \<Rightarrow> char" where
  "digitChar d = ''0123456789'' ! (d mod 10)"

text \<open>\<^verbatim>\<open>fmt.Sprintf("%d", n)\<close> for a non-negative \<open>n\<close>.\<close>

fun fmt_d :: "nat \<Rightarrow> string" where
  "fmt_d n = (if n < 10 then [digitChar n] else fmt_d (n div 10) @ [digitChar n])"

declare fmt_d.simps [simp del]

text \<open>
  \<^verbatim>\<open>fmt.Sprintf("%.0f", x)\<close> for \<open>x \<ge> 0\<close>: the nearest integer, ties to even
  (the rule of \<^verbatim>\<open>strconv.FormatFloat\<close>).
\<close>

definition roundHalfEven :: "real \<Rightarrow> int" where
  "roundHalfEven x =
     (let f = \<lfloor>x\<rfloor>; d = x - of_int f
      in if d < 1 / 2 then f else if 1 / 2 < d then f + 1 else if even f then f else f + 1)"

definition fmt_f0 :: "float64 \<Rightarrow> string" where
  "fmt_f0 x = (if x < 0 then ''-'' @ fmt_d (nat (roundHalfEven (- x))) else fmt_d (nat (roundHalfEven x)))"

subsection \<open>float64 arithmetic\<close>

text \<open>
  The exponent of a positive value, found by halving or doubling it into \<open>[1, 2)\<close>, in at
  most \<open>n\<close> steps.
\<close>

fun scale_down :: "nat \<Rightarrow> real \<Rightarrow> int" where
  "scale_down 0 a = 0"
| "scale_down (Suc n) a = (if a < 2 then 0 else scale_down n (a / 2) + 1)"

fun scale_up :: "nat \<Rightarrow> real \<Rightarrow> int" where
  "scale_up 0 a = 0"
| "scale_up (Suc n) a = (if 1 \<le> a then 0 else scale_up n (a * 2) - 1)"

text \<open>
  The exponent of the binade of \<open>x\<close>, between those of the smallest and the largest
  normal doubles; the doubles of that binade are the multiples of \<open>2^(binade x - 52)\<close>.
\<close>

definition binade :: "real \<Rightarrow> int" where
  "binade x = (if 1 \<le> \<bar>x\<bar> then scale_down 1023 \<bar>x\<bar> else scale_up 1022 \<bar>x\<bar>)"

text \<open>
  Rounding to the nearest double, ties to even (subnormal results included). A value
  beyond the largest finite double is rounded in the top binade, to \<open>2^1024\<close> or more.
\<close>

definition rnd64 :: "real \<Rightarrow> float64" where
  "rnd64 x = (let u = 2 powi (binade x - 52) in u * of_int (roundHalfEven (x / u)))"

text \<open>A finite double: a rounded value below the overflow threshold.\<close>

definition finite64 :: "float64 \<Rightarrow> bool" where
  "finite64 x \<longleftrightarrow> \<bar>x\<bar> < 2 ^ 1024"

subsection \<open>pkg/utils: audio helpers\<close>

text \<open>
  \<^verbatim>\<open>
  // CalculateRMS calculates the Root Mean Square of audio samples
  func CalculateRMS(samples []int16) float64 {
      if len(samples) == 0 { return 0 }
      var sum float64
      for _, sample := range samples { sum += float64(sample) * float64(sample) }
      return sum / float64(len(samples))
  }
  \<close>
\<close>

definition CalculateRMS :: "int16 list \<Rightarrow> float64" where
  "CalculateRMS samples =
     (if length samples = 0 then 0
      else rnd64 (foldl (\<lambda>sum sample.
                           rnd64 (sum + rnd64 (rnd64 (real_of_int (sint sample))
                                               * rnd64 (real_of_int (sint sample)))))
                        0 samples
                  / rnd64 (real (length samples))))"

text \<open>
  The quantity the documentation of \<open>CalculateRMS\<close> names: the square root of the mean
  of the squared samples (0 for an empty block). This definition follows the
  specification's words, for comparison with the code.
\<close>

definition rms_spec :: "int16 list \<Rightarrow> real" where
  "rms_spec samples =
     (if samples = [] then 0
      else sqrt (sum_list (map (\<lambda>s. (real_of_int (sint s))\<^sup>2) samples) / real (length samples)))"

subsection \<open>internal/llm: the action a language model returns\<close>

text \<open>
  \<^verbatim>\<open>Params map[string]interface{}\<close>: a parameter is one of the dynamic types the accessors
  distinguish; every other dynamic type is \<open>POther\<close>.
\<close>

datatype param = PString string | PFloat float64 | PInt int | PInt64 int | PBool bool | POther

record llm_Action =
  Action :: string
  Params :: "string \<rightharpoonup> param"
  Reply :: string

definition GetStringParam :: "llm_Action \<Rightarrow> string \<Rightarrow> string" where
  "GetStringParam a key = (case Params a key of Some (PString s) \<Rightarrow> s | _ \<Rightarrow> [])"

definition GetFloatParam :: "llm_Action \<Rightarrow> string \<Rightarrow> float64" where
  "GetFloatParam a key =
     (case Params a key of
        Some (PFloat val) \<Rightarrow> val
      | Some (PInt val) \<Rightarrow> rnd64 (real_of_int val)
      | Some (PInt64 val) \<Rightarrow> rnd64 (real_of_int val)
      | _ \<Rightarrow> 0)"

subsection \<open>internal/executor: results\<close>

text \<open>A Go \<^verbatim>\<open>error\<close> is represented by its message, \<^verbatim>\<open>err.Error()\<close>.\<close>

type_synonym error = string

datatype jvalue = JString string | JFloat float64 | JInt int | JBool bool

record Result =
  Success :: bool
  Message :: string
  Data :: "(string \<times> jvalue) list"
  Error :: string

definition NewResult :: "string \<Rightarrow> Result" where
  "NewResult message = \<lparr>Success = True, Message = message, Data = [], Error = []\<rparr>"

definition NewResultWithData :: "string \<Rightarrow> (string \<times> jvalue) list \<Rightarrow> Result" where
  "NewResultWithData message data = \<lparr>Success = True, Message = message, Data = data, Error = []\<rparr>"

definition NewErrorResult :: "error \<Rightarrow> Result" where
  "NewErrorResult err = \<lparr>Success = False, Message = [], Data = [], Error = err\<rparr>"

subsection \<open>internal/executor/obs: the broadcast-tool executor\<close>

text \<open>
  The executor's fields that the control flow reads, together with what it has done on
  the wire: \<open>dials\<close> counts the WebSocket dial attempts of \<open>Connect\<close>, \<open>requests\<close> lists the
  requests handed to the socket by \<open>sendRequest\<close>.
\<close>

record obs_Executor =
  url :: string
  password :: string
  enabled :: bool
  connected :: bool
  requestID :: nat
  dials :: nat
  requests :: "(string \<times> (string \<times> jvalue) list) list"

text \<open>How the handshake of \<open>Connect\<close> ends, in the order of its early returns.\<close>

datatype connect_outcome =
    DialError error
  | ReadHelloError error
  | NotHello nat
  | ParseHelloError error
  | SendIdentifyError error
  | ReadIdentifiedError error
  | NotIdentified nat
  | Identified

record ResponseData =
  RequestStatus_Result :: bool
  RequestStatus_Comment :: string
  ResponseData_fields :: "string \<rightharpoonup> jvalue"

text \<open>How one request/response exchange of \<open>sendRequest\<close> ends.\<close>

datatype send_outcome =
    WriteError error
  | ParseError error
  | CtxDone error
  | Timeout
  | Response ResponseData

record obs_env =
  dialOutcome :: connect_outcome
  respond :: "nat \<Rightarrow> string \<Rightarrow> (string \<times> jvalue) list \<Rightarrow> send_outcome"

definition Connect :: "obs_env \<Rightarrow> obs_Executor \<Rightarrow> obs_Executor \<times> error option" where
  "Connect env e =
     (if connected e then (e, None)
      else
        let e1 = e\<lparr>dials := dials e + 1\<rparr>
        in case dialOutcome env of
             DialError err \<Rightarrow> (e1, Some (''failed to connect to OBS: '' @ err))
           | ReadHelloError err \<Rightarrow> (e1, Some (''failed to read hello: '' @ err))
           | NotHello op \<Rightarrow> (e1, Some (''expected Hello, got op '' @ fmt_d op))
           | ParseHelloError err \<Rightarrow> (e1, Some (''failed to parse hello: '' @ err))
           | SendIdentifyError err \<Rightarrow> (e1, Some (''failed to send identify: '' @ err))
           | ReadIdentifiedError err \<Rightarrow> (e1, Some (''failed to read identified: '' @ err))
           | NotIdentified op \<Rightarrow> (e1, Some (''authentication failed, got op '' @ fmt_d op))
           | Identified \<Rightarrow> (e1\<lparr>connected := True\<rparr>, None))"

definition sendRequest ::
  "obs_env \<Rightarrow> obs_Executor \<Rightarrow> string \<Rightarrow> (string \<times> jvalue) list \<Rightarrow> obs_Executor \<times> (error + ResponseData)" where
  "sendRequest env e requestType data =
     (if \<not> connected e then (e, Inl ''not connected to OBS'')
      else
        let reqID = requestID e + 1;
            e1 = e\<lparr>requestID := reqID, requests := requests e @ [(requestType, data)]\<rparr>
        in case respond env reqID requestType data of
             WriteError err \<Rightarrow> (e1, Inl (''failed to send request: '' @ err))
           | ParseError err \<Rightarrow> (e1, Inl (''failed to parse response: '' @ err))
           | CtxDone err \<Rightarrow> (e1, Inl err)
           | Timeout \<Rightarrow> (e1, Inl ''request timeout'')
           | Response resp \<Rightarrow> (e1, Inr resp))"

definition setScene :: "obs_env \<Rightarrow> obs_Executor \<Rightarrow> llm_Action \<Rightarrow> obs_Executor \<times> Result \<times> error option" where
  "setScene env e action =
     (let scene = GetStringParam action ''scene''
      in if scene = [] then (e, NewErrorResult ''scene name is required'', None)
         else case sendRequest env e ''SetCurrentProgramScene'' [(''sceneName'', JString scene)] of
                (e1, Inl err) \<Rightarrow> (e1, NewErrorResult err, Some err)
              | (e1, Inr resp) \<Rightarrow>
                  if \<not> RequestStatus_Result resp
                  then (e1, NewErrorResult (''failed to change scene: '' @ RequestStatus_Comment resp), None)
                  else (e1, NewResult (''Changed to scene: '' @ scene), None))"

text \<open>
  \<^verbatim>\<open>int(x)\<close> on a \<^verbatim>\<open>float64\<close>: truncation towards zero. For a value outside the
  64-bit range the language leaves the result to the implementation; the amd64
  conversion instruction gives \<open>-2^63\<close>, which is what is written here.
\<close>

definition int_of_float64 :: "float64 \<Rightarrow> int" where
  "int_of_float64 x =
     (let t = (if 0 \<le> x then \<lfloor>x\<rfloor> else \<lceil>x\<rceil>)
      in if - (2 ^ 63) \<le> t \<and> t < 2 ^ 63 then t else - (2 ^ 63))"

definition setSourceVisibility ::
  "obs_env \<Rightarrow> obs_Executor \<Rightarrow> llm_Action \<Rightarrow> bool \<Rightarrow> obs_Executor \<times> Result \<times> error option" where
  "setSourceVisibility env e action visible =
     (let source = GetStringParam action ''source''
      in if source = [] then (e, NewErrorResult ''source name is required'', None)
         else case sendRequest env e ''GetCurrentProgramScene'' [] of
           (e1, Inl err) \<Rightarrow> (e1, NewErrorResult err, Some err)
         | (e1, Inr sceneResp) \<Rightarrow>
            (case ResponseData_fields sceneResp ''currentProgramSceneName'' of
               Some (JString sceneName) \<Rightarrow>
                 (case sendRequest env e1 ''GetSceneItemId''
                         [(''sceneName'', JString sceneName), (''sourceName'', JString source)] of
                    (e2, Inl err) \<Rightarrow> (e2, NewErrorResult err, Some err)
                  | (e2, Inr itemResp) \<Rightarrow>
                      if \<not> RequestStatus_Result itemResp
                      then (e2, NewErrorResult (''source not found: '' @ source), None)
                      else (case ResponseData_fields itemResp ''sceneItemId'' of
                              Some (JFloat sceneItemId) \<Rightarrow>
                                (case sendRequest env e2 ''SetSceneItemEnabled''
                                        [(''sceneName'', JString sceneName),
                                         (''sceneItemId'', JInt (int_of_float64 sceneItemId)),
                                         (''sceneItemEnabled'', JBool visible)] of
                                   (e3, Inl err) \<Rightarrow> (e3, NewErrorResult err, Some err)
                                 | (e3, Inr resp) \<Rightarrow>
                                     if \<not> RequestStatus_Result resp
                                     then (e3, NewErrorResult (''failed to set visibility: '' @ RequestStatus_Comment resp), None)
                                     else (e3, NewResult (''Source '' @ source @ '' '' @ (if \<not> visible then ''hidden'' else ''shown'')), None))
                            | _ \<Rightarrow> (e2, NewErrorResult ''could not get scene item ID'', None)))
             | _ \<Rightarrow> (e1, NewErrorResult ''could not get current scene'', None)))"

text \<open>
  \<^verbatim>\<open>
  volume := action.GetFloatParam("volume")
  if volume < 0 { volume = 0 }
  if volume > 1 { volume = 1 }
  var volumeDb float64
  if volume <= 0 { volumeDb = -100 } else { volumeDb = 20 * (volume - 1) * 2 }
  resp, err := e.sendRequest(ctx, "SetInputVolume",
      map[string]interface{}{"inputName": source, "inputVolumeDb": volumeDb})
  ...
  return executor.NewResult(fmt.Sprintf("Volume of %s set to %.0f%%", source, volume*100)), nil
  \<close>
  Go evaluates \<^verbatim>\<open>20 * (volume - 1) * 2\<close> from the left, rounding the difference, the
  product by 20 and the product by 2 in turn.
\<close>

definition setVolume :: "obs_env \<Rightarrow> obs_Executor \<Rightarrow> llm_Action \<Rightarrow> obs_Executor \<times> Result \<times> error option" where
  "setVolume env e action =
     (let source = GetStringParam action ''source''
      in if source = [] then (e, NewErrorResult ''source name is required'', None)
         else
           let volume0 = GetFloatParam action ''volume'';
               volume1 = (if volume0 < 0 then 0 else volume0);
               volume = (if volume1 > 1 then 1 else volume1);
               volumeDb = (if volume \<le> 0 then - 100
                           else rnd64 (rnd64 (20 * rnd64 (volume - 1)) * 2))
           in case sendRequest env e ''SetInputVolume''
                     [(''inputName'', JString source), (''inputVolumeDb'', JFloat volumeDb)] of
                (e1, Inl err) \<Rightarrow> (e1, NewErrorResult err, Some err)
              | (e1, Inr resp) \<Rightarrow>
                  if \<not> RequestStatus_Result resp
                  then (e1, NewErrorResult (''failed to set volume: '' @ RequestStatus_Comment resp), None)
                  else (e1, NewResult (''Volume of '' @ source @ '' set to '' @ fmt_f0 (rnd64 (volume * 100)) @ ''%''), None))"

definition setMute ::
  "obs_env \<Rightarrow> obs_Executor \<Rightarrow> llm_Action \<Rightarrow> bool \<Rightarrow> obs_Executor \<times> Result \<times> error option" where
  "setMute env e action muted =
     (let source = GetStringParam action ''source''
      in if source = [] then (e, NewErrorResult ''source name is required'', None)
         else case sendRequest env e ''SetInputMute''
                     [(''inputName'', JString source), (''inputMuted'', JBool muted)] of
                (e1, Inl err) \<Rightarrow> (e1, NewErrorResult err, Some err)
              | (e1, Inr resp) \<Rightarrow>
                  if \<not> RequestStatus_Result resp
                  then (e1, NewErrorResult (''failed to set mute: '' @ RequestStatus_Comment resp), None)
                  else (e1, NewResult (''Source '' @ source @ '' '' @ (if \<not> muted then ''unmuted'' else ''muted'')), None))"

text \<open>
  \<open>setText\<close> sends the text nested one level down, as \<^verbatim>\<open>inputSettings: {text: ...}\<close>; the
  flat request record keeps it under the key \<open>inputSettings.text\<close>.
\<close>

definition setText :: "obs_env \<Rightarrow> obs_Executor \<Rightarrow> llm_Action \<Rightarrow> obs_Executor \<times> Result \<times> error option" where
  "setText env e action =
     (let source = GetStringParam action ''source''
      in if source = [] then (e, NewErrorResult ''source name is required'', None)
         else
           let text = GetStringParam action ''text''
           in case sendRequest env e ''SetInputSettings''
                     [(''inputName'', JString source), (''inputSettings.text'', JString text)] of
                (e1, Inl err) \<Rightarrow> (e1, NewErrorResult err, Some err)
              | (e1, Inr resp) \<Rightarrow>
                  if \<not> RequestStatus_Result resp
                  then (e1, NewErrorResult (''failed to set text: '' @ RequestStatus_Comment resp), None)
                  else (e1, NewResult ''Text updated'', None))"

definition obs_Execute :: "obs_env \<Rightarrow> obs_Executor \<Rightarrow> llm_Action \<Rightarrow> obs_Executor \<times> Result \<times> error option" where
  "obs_Execute env e action =
     (if \<not> enabled e then (e, NewErrorResult ''OBS is not enabled'', None)
      else
        case (if \<not> connected e then Connect env e else (e, None)) of
          (e1, Some err) \<Rightarrow> (e1, NewErrorResult err, Some err)
        | (e1, None) \<Rightarrow>
            if Action action = ''obs.scene'' then setScene env e1 action
            else if Action action = ''obs.source.show'' then setSourceVisibility env e1 action True
            else if Action action = ''obs.source.hide'' then setSourceVisibility env e1 action False
            else if Action action = ''obs.volume'' then setVolume env e1 action
            else if Action action = ''obs.mute'' then setMute env e1 action True
            else if Action action = ''obs.unmute'' then setMute env e1 action False
            else if Action action = ''obs.text'' then setText env e1 action
            else (e1, NewErrorResult (''unknown OBS action: '' @ Action action), None))"

definition obs_IsAvailable :: "obs_Executor \<Rightarrow> bool" where
  "obs_IsAvailable e = (enabled e \<and> connected e)"

definition obs_CanHandle :: "string \<Rightarrow> bool" where
  "obs_CanHandle action = (take 4 action = ''obs.'')"

subsection \<open>internal/brain: the restricted arithmetic evaluator\<close>

text \<open>
  Library functions the evaluator calls, restricted to the strings that can reach them.
  \<open>evaluateExpression\<close> admits only the bytes \<^verbatim>\<open>0-9 + - * / . ( ) ^\<close>, so no letter,
  whitespace or non-ASCII byte reaches \<open>strings.TrimSpace\<close>, \<open>regexp.Split\<close> or
  \<open>strconv.ParseFloat\<close>.
\<close>

text \<open>UTF-8 bytes of the accented letters in the Spanish messages.\<close>

definition a_acute :: string where "a_acute = [CHR 0xC3, CHR 0xA1]"
definition e_acute :: string where "e_acute = [CHR 0xC3, CHR 0xA9]"
definition i_acute :: string where "i_acute = [CHR 0xC3, CHR 0xAD]"
definition o_acute :: string where "o_acute = [CHR 0xC3, CHR 0xB3]"
definition u_acute :: string where "u_acute = [CHR 0xC3, CHR 0xBA]"

text \<open>\<^verbatim>\<open>strings.Index(s, c)\<close> and \<^verbatim>\<open>strings.LastIndex(s, c)\<close> for a one-byte \<open>c\<close>; \<open>None\<close> is Go's -1.\<close>

fun Index :: "string \<Rightarrow> char \<Rightarrow> nat option" where
  "Index [] c = None"
| "Index (x # xs) c = (if x = c then Some 0 else map_option Suc (Index xs c))"

fun LastIndex :: "string \<Rightarrow> char \<Rightarrow> nat option" where
  "LastIndex [] c = None"
| "LastIndex (x # xs) c =
     (case LastIndex xs c of
        Some i \<Rightarrow> Some (Suc i)
      | None \<Rightarrow> if x = c then Some 0 else None)"

text \<open>
  \<^verbatim>\<open>regexp.MustCompile(`([...])`).Split(s, -1)\<close> for a class of single bytes: the substrings
  between the matches. The matched separators are not part of the result (Go's \<open>Split\<close>
  drops them, capture group or not), and the result of splitting the empty string is
  one empty string.
\<close>

fun Split :: "(char \<Rightarrow> bool) \<Rightarrow> string \<Rightarrow> string list" where
  "Split sep [] = [[]]"
| "Split sep (c # cs) =
     (if sep c then [] # Split sep cs
      else case Split sep cs of
             [] \<Rightarrow> [[c]]
           | p # ps \<Rightarrow> (c # p) # ps)"

definition isSpace :: "char \<Rightarrow> bool" where
  "isSpace c = (c \<in> set [CHR 0x09, CHR 0x0A, CHR 0x0B, CHR 0x0C, CHR 0x0D, CHR 0x20])"

definition TrimSpace :: "string \<Rightarrow> string" where
  "TrimSpace s = rev (dropWhile isSpace (rev (dropWhile isSpace s)))"

definition isDigit :: "char \<Rightarrow> bool" where
  "isDigit c = (c \<in> set ''0123456789'')"

definition digitVal :: "char \<Rightarrow> nat" where
  "digitVal c = of_char c - 48"

text \<open>The value of a string of decimal digits, most significant first.\<close>

definition decimal :: "string \<Rightarrow> nat" where
  "decimal ds = foldl (\<lambda>n c. 10 * n + digitVal c) 0 ds"

text \<open>
  \<^verbatim>\<open>strconv.ParseFloat(s, 64)\<close> on strings without sign, exponent, letters or underscore:
  decimal digits with at most one point and at least one digit; \<open>None\<close> is a non-nil
  error (a syntax error, or a range error for a value that rounds beyond the largest
  finite double). The result is the double nearest to the decimal.
\<close>

definition ParseFloat :: "string \<Rightarrow> float64 option" where
  "ParseFloat s =
     (let ip = takeWhile isDigit s; rest = dropWhile isDigit s;
          fp = (case rest of [] \<Rightarrow> [] | c # cs \<Rightarrow> cs);
          v = real (decimal ip) + real (decimal fp) / 10 ^ length fp
      in if (rest = [] \<or> (hd rest = CHR ''.'' \<and> list_all isDigit fp)) \<and> ip @ fp \<noteq> []
            \<and> v < 2 ^ 1024 - 2 ^ 970
         then Some (rnd64 v) else None)"

text \<open>
  \<^verbatim>\<open>fmt.Sprintf("%g", x)\<close> for an integral \<open>x\<close> with \<open>|x| < 10^6\<close>, where the shortest
  representation is the plain decimal integer (from \<open>10^6\<close> on \<^verbatim>\<open>%g\<close> switches to the
  exponent form). Other values are outside the model: \<open>None\<close>.
\<close>

definition fmt_g :: "float64 \<Rightarrow> string option" where
  "fmt_g x =
     (if x = of_int \<lfloor>x\<rfloor> \<and> \<bar>x\<bar> < 1000000
      then Some (if x < 0 then ''-'' @ fmt_d (nat (- \<lfloor>x\<rfloor>)) else fmt_d (nat \<lfloor>x\<rfloor>))
      else None)"

text \<open>
  The outcome of an evaluation: a value with a nil error, a non-nil error, a run-time
  panic, or \<open>Unmodelled\<close> when an intermediate value leaves the domain of \<open>fmt_g\<close> or
  an operation overflows the finite doubles (where Go goes on with an infinity).
\<close>

datatype eval_result = Value float64 | Failure error | Panic string | Unmodelled

text \<open>Going on with the result \<open>r\<close> of an arithmetic operation, if it is finite.\<close>

definition continue_with :: "float64 \<Rightarrow> (float64 \<Rightarrow> eval_result) \<Rightarrow> eval_result" where
  "continue_with r k = (if finite64 r then k r else Unmodelled)"

text \<open>
  The loop of \<open>parseAndMultiplyDivide\<close>:
  \<^verbatim>\<open>
  for i := 1; i < len(parts); i += 2 {
      operator := parts[i-1][len(parts[i-1])-1:]
      nextStr := parts[i]
      nextVal, err := strconv.ParseFloat(nextStr, 64)
      if err != nil { return 0, fmt.Errorf("numero invalido: %s", nextStr) }
      if operator == "*" { result *= nextVal }
      else if operator == "/" {
          if nextVal == 0 { return 0, fmt.Errorf("division entre cero") }
          result /= nextVal
      }
  }
  return result, nil
  \<close>
\<close>

function mulDivLoop :: "string list \<Rightarrow> nat \<Rightarrow> float64 \<Rightarrow> eval_result" where
  "mulDivLoop parts i result =
     (if i < length parts then
        if i = 0 then Panic ''index out of range [-1]''
        else if parts ! (i - 1) = [] then Panic ''slice bounds out of range [-1:]''
        else
          let operator = [last (parts ! (i - 1))];
              nextStr = parts ! i
          in case ParseFloat nextStr of
               None \<Rightarrow> Failure (''n'' @ u_acute @ ''mero inv'' @ a_acute @ ''lido: '' @ nextStr)
             | Some nextVal \<Rightarrow>
                 if operator = ''*''
                 then continue_with (rnd64 (result * nextVal)) (mulDivLoop parts (i + 2))
                 else if operator = ''/'' then
                   (if nextVal = 0 then Failure (''divisi'' @ o_acute @ ''n entre cero'')
                    else continue_with (rnd64 (result / nextVal)) (mulDivLoop parts (i + 2)))
                 else mulDivLoop parts (i + 2) result
      else Value result)"
  by pat_completeness auto
termination
  by (relation "measure (\<lambda>(parts, i, result). length parts - i)") auto

declare mulDivLoop.simps [simp del]

definition parseAndMultiplyDivide :: "string \<Rightarrow> eval_result" where
  "parseAndMultiplyDivide expr0 =
     (let expr = TrimSpace expr0
      in if expr = [] then Failure (''expresi'' @ o_acute @ ''n vac'' @ i_acute @ ''a'')
         else
           let parts = Split (\<lambda>c. c = CHR ''*'' \<or> c = CHR ''/'') expr
           in case ParseFloat (parts ! 0) of
                None \<Rightarrow> Failure (''n'' @ u_acute @ ''mero inv'' @ a_acute @ ''lido: '' @ parts ! 0)
              | Some result \<Rightarrow> mulDivLoop parts 1 result)"

text \<open>
  The second loop of \<open>simpleEval\<close>:
  \<^verbatim>\<open>
  for i := 1; i < len(parts); i += 2 {
      operator := parts[i-1][len(parts[i-1])-1:] // Get last char
      if operator != "+" && operator != "-" { operator = "+"; i-- }
      nextVal, err := parseAndMultiplyDivide(parts[i])
      if err != nil { return 0, err }
      if operator == "+" { result += nextVal } else { result -= nextVal }
  }
  return result, nil
  \<close>
\<close>

function addSubLoop :: "string list \<Rightarrow> nat \<Rightarrow> float64 \<Rightarrow> eval_result" where
  "addSubLoop parts i result =
     (if i < length parts then
        if i = 0 then Panic ''index out of range [-1]''
        else if parts ! (i - 1) = [] then Panic ''slice bounds out of range [-1:]''
        else
          let operator0 = [last (parts ! (i - 1))];
              reset = (operator0 \<noteq> ''+'' \<and> operator0 \<noteq> ''-'');
              operator = (if reset then ''+'' else operator0);
              i1 = (if reset then i - 1 else i)
          in case parseAndMultiplyDivide (parts ! i1) of
               Value nextVal \<Rightarrow>
                 if operator = ''+''
                 then continue_with (rnd64 (result + nextVal)) (addSubLoop parts (i1 + 2))
                 else continue_with (rnd64 (result - nextVal)) (addSubLoop parts (i1 + 2))
             | r \<Rightarrow> r
      else Value result)"
  by pat_completeness auto
termination
  by (relation "measure (\<lambda>(parts, i, result). length parts - i)") auto

declare addSubLoop.simps [simp del]

text \<open>The part of \<open>simpleEval\<close> after the parenthesis loop, on an expression without \<open>(\<close>.\<close>

definition simpleEval_flat :: "string \<Rightarrow> eval_result" where
  "simpleEval_flat expr =
     (let parts = Split (\<lambda>c. c = CHR ''+'' \<or> c = CHR ''-'') expr
      in if length parts = 0 then Failure (''expresi'' @ o_acute @ ''n vac'' @ i_acute @ ''a'')
         else case parseAndMultiplyDivide (parts ! 0) of
                Value result \<Rightarrow> addSubLoop parts 1 result
              | r \<Rightarrow> r)"

definition count_open :: "string \<Rightarrow> nat" where
  "count_open expr = length (filter (\<lambda>c. c = CHR ''('') expr)"

lemma LastIndex_Some:
  "LastIndex s c = Some i \<Longrightarrow> i < length s \<and> s ! i = c \<and> c \<notin> set (drop (Suc i) s)"
proof (induction s arbitrary: i)
  case Nil
  then show ?case by simp
next
  case (Cons x xs)
  show ?case
  proof (cases "LastIndex xs c")
    case None
    have "c \<notin> set xs" using None
      by (induction xs) (auto split: option.splits if_splits)
    with Cons.prems None show ?thesis by (auto split: if_splits)
  next
    case (Some j)
    with Cons.prems have "i = Suc j" by simp
    with Cons.IH [OF Some] show ?thesis by simp
  qed
qed

lemma fmt_d_digits: "set (fmt_d n) \<subseteq> set ''0123456789''"
proof (induction n rule: fmt_d.induct)
  case (1 n)
  have d: "digitChar m \<in> set ''0123456789''" for m
  proof -
    have "m mod 10 < length ''0123456789''" by simp
    then show ?thesis unfolding digitChar_def by (rule nth_mem)
  qed
  show ?case
  proof (cases "n < 10")
    case True
    then show ?thesis using d [of n] by (subst fmt_d.simps) simp
  next
    case False
    then show ?thesis using d [of n] "1.IH" by (subst fmt_d.simps) simp
  qed
qed

lemma fmt_g_no_open: "fmt_g x = Some s \<Longrightarrow> CHR ''('' \<notin> set s"
proof -
  assume a: "fmt_g x = Some s"
  have "CHR ''('' \<notin> set (fmt_d n)" for n
    using fmt_d_digits [of n] by auto
  with a show ?thesis
    by (auto simp: fmt_g_def split: if_splits)
qed

lemma count_open_splice:
  assumes "LastIndex expr (CHR ''('') = Some openIdx" and "CHR ''('' \<notin> set s"
  shows "count_open (take openIdx expr @ s @ drop k (drop (Suc openIdx) expr)) < count_open expr"
    and "count_open (take n (drop (Suc openIdx) expr)) < count_open expr"
proof -
  from LastIndex_Some [OF assms(1)]
  have lt: "openIdx < length expr" and at: "expr ! openIdx = CHR ''(''"
    and no: "CHR ''('' \<notin> set (drop (Suc openIdx) expr)" by auto
  have split: "expr = take openIdx expr @ CHR ''('' # drop (Suc openIdx) expr"
    using lt at by (metis id_take_nth_drop)
  have z: "filter (\<lambda>c. c = CHR ''('') (drop (Suc openIdx) expr) = []"
    using no by (auto simp: filter_empty_conv)
  have "set (drop k (drop (Suc openIdx) expr)) \<subseteq> set (drop (Suc openIdx) expr)"
    by (rule set_drop_subset)
  with no have nk: "CHR ''('' \<notin> set (drop k (drop (Suc openIdx) expr))" by blast
  have zk: "filter (\<lambda>c. c = CHR ''('') (drop k (drop (Suc openIdx) expr)) = []"
    using nk unfolding filter_empty_conv by blast
  have "set (take n (drop (Suc openIdx) expr)) \<subseteq> set (drop (Suc openIdx) expr)"
    by (rule set_take_subset)
  with no have nn: "CHR ''('' \<notin> set (take n (drop (Suc openIdx) expr))" by blast
  have zn: "filter (\<lambda>c. c = CHR ''('') (take n (drop (Suc openIdx) expr)) = []"
    using nn unfolding filter_empty_conv by blast
  have zs: "filter (\<lambda>c. c = CHR ''('') s = []"
    using assms(2) by (auto simp: filter_empty_conv)
  have "filter (\<lambda>c. c = CHR ''('') expr =
          filter (\<lambda>c. c = CHR ''('') (take openIdx expr @ CHR ''('' # drop (Suc openIdx) expr)"
    using split by simp
  then have c: "length (filter (\<lambda>c. c = CHR ''('') expr) =
                Suc (length (filter (\<lambda>c. c = CHR ''('') (take openIdx expr)))"
    by (simp add: z)
  show "count_open (take openIdx expr @ s @ drop k (drop (Suc openIdx) expr)) < count_open expr"
    unfolding count_open_def filter_append zk zs c by simp
  show "count_open (take n (drop (Suc openIdx) expr)) < count_open expr"
    unfolding count_open_def zn c by simp
qed

text \<open>
  \<^verbatim>\<open>
  func simpleEval(expr string) (float64, error) {
      for {
          openIdx := strings.LastIndex(expr, "(")
          if openIdx == -1 { break }
          closeIdx := strings.Index(expr[openIdx:], ")")
          if closeIdx == -1 { return 0, fmt.Errorf("parentesis no balanceados") }
          closeIdx += openIdx
          inner := expr[openIdx+1 : closeIdx]
          result, err := simpleEval(inner)
          if err != nil { return 0, err }
          expr = expr[:openIdx] + fmt.Sprintf("%g", result) + expr[closeIdx+1:]
      }
      ... // simpleEval_flat
  }
  \<close>
\<close>

function simpleEval :: "string \<Rightarrow> eval_result" where
  "simpleEval expr =
     (case LastIndex expr (CHR ''('') of
        None \<Rightarrow> simpleEval_flat expr
      | Some openIdx \<Rightarrow>
          (case Index (drop openIdx expr) (CHR '')'') of
             None \<Rightarrow> Failure (''par'' @ e_acute @ ''ntesis no balanceados'')
           | Some closeOff \<Rightarrow>
               (case simpleEval (take (closeOff - 1) (drop (Suc openIdx) expr)) of
                  Value result \<Rightarrow>
                    (case fmt_g result of
                       None \<Rightarrow> Unmodelled
                     | Some s \<Rightarrow>
                         simpleEval (take openIdx expr @ s @ drop closeOff (drop (Suc openIdx) expr)))
                | r \<Rightarrow> r)))"
  by pat_completeness auto
termination
proof (relation "measure count_open")
  show "wf (measure count_open)" by simp
next
  fix expr openIdx closeOff
  assume "LastIndex expr (CHR ''('') = Some openIdx"
  then show "(take (closeOff - 1) (drop (Suc openIdx) expr), expr) \<in> measure count_open"
    using count_open_splice(2) [of expr openIdx "[]"] by simp
next
  fix expr openIdx closeOff result s
  assume "LastIndex expr (CHR ''('') = Some openIdx" and "fmt_g result = Some s"
  then show "(take openIdx expr @ s @ drop closeOff (drop (Suc openIdx) expr), expr) \<in> measure count_open"
    using count_open_splice(1) [of expr openIdx s closeOff] fmt_g_no_open [of result s] by simp
qed

declare simpleEval.simps [simp del]

definition validChar :: "char \<Rightarrow> bool" where
  "validChar c = (c \<in> set ''0123456789+-*/.()^'')"

text \<open>
  \<^verbatim>\<open>
  func evaluateExpression(expr string) (float64, error) {
      expr = strings.ReplaceAll(expr, " ", "")
      validChars := regexp.MustCompile(`^[0-9+\-*/.()^]+$`)
      if !validChars.MatchString(expr) { return 0, fmt.Errorf("expresion invalida") }
      return simpleEval(expr)
  }
  \<close>
\<close>

definition evaluateExpression :: "string \<Rightarrow> eval_result" where
  "evaluateExpression expr0 =
     (let expr = filter (\<lambda>c. c \<noteq> CHR '' '') expr0
      in if \<not> (expr \<noteq> [] \<and> list_all validChar expr)
         then Failure (''expresi'' @ o_acute @ ''n inv'' @ a_acute @ ''lida'')
         else simpleEval expr)"

definition isLetter :: "char \<Rightarrow> bool" where
  "isLetter c = (c \<in> set ''abcdefghijklmnopqrstuvwxyzABCDEFGHIJKLMNOPQRSTUVWXYZ'')"

subsection \<open>internal/executor: the executor interface and the registry\<close>

text \<open>
  A value of the \<^verbatim>\<open>Executor\<close> interface: its methods, over the executor's own mutable
  state \<open>self\<close>. \<open>Execute\<close> returns the state it leaves behind.
\<close>

record 's Executor =
  Name :: string
  SupportedActions :: "string list"
  CanHandle :: "string \<Rightarrow> bool"
  IsAvailable :: "'s \<Rightarrow> bool"
  Execute :: "'s \<Rightarrow> llm_Action \<Rightarrow> 's \<times> Result \<times> error option"
  self :: 's

text \<open>
  \<^verbatim>\<open>executors map[string]Executor\<close>, as the list of its entries in the order in which a
  \<^verbatim>\<open>range\<close> over the map visits them. Go leaves that order unspecified; nothing below
  depends on a particular one.
\<close>

type_synonym 's Registry = "(string \<times> 's Executor) list"

definition NewRegistry :: "'s Registry" where
  "NewRegistry = []"

fun store :: "'s Registry \<Rightarrow> string \<Rightarrow> 's Executor \<Rightarrow> 's Registry" where
  "store [] k exec = [(k, exec)]"
| "store ((k', v) # r) k exec = (if k' = k then (k, exec) # r else (k', v) # store r k exec)"

definition Register :: "'s Registry \<Rightarrow> 's Executor \<Rightarrow> 's Registry" where
  "Register r exec = store r (Name exec) exec"

definition Get :: "'s Registry \<Rightarrow> string \<Rightarrow> 's Executor option" where
  "Get r name = map_of r name"

fun FindExecutor :: "'s Registry \<Rightarrow> string \<Rightarrow> error + 's Executor" where
  "FindExecutor [] action = Inl (''no executor found for action: '' @ action)"
| "FindExecutor ((k, exec) # r) action =
     (if CanHandle exec action then Inr exec else FindExecutor r action)"

text \<open>The executor that \<open>FindExecutor\<close> returned is a pointer: its new state is seen in the map.\<close>

fun put_back :: "'s Registry \<Rightarrow> string \<Rightarrow> 's \<Rightarrow> 's Registry" where
  "put_back [] action s = []"
| "put_back ((k, exec) # r) action s =
     (if CanHandle exec action then (k, exec\<lparr>self := s\<rparr>) # r else (k, exec) # put_back r action s)"

text \<open>
  \<^verbatim>\<open>
  func (r *Registry) Execute(ctx context.Context, action llm.Action) (Result, error) {
      exec, err := r.FindExecutor(action.Action)
      if err != nil { return NewErrorResult(err), err }
      if !exec.IsAvailable() {
          err := fmt.Errorf("executor %s is not available", exec.Name())
          return NewErrorResult(err), err
      }
      return exec.Execute(ctx, action)
  }
  \<close>
\<close>

definition Registry_Execute :: "'s Registry \<Rightarrow> llm_Action \<Rightarrow> 's Registry \<times> Result \<times> error option" where
  "Registry_Execute r action =
     (case FindExecutor r (Action action) of
        Inl err \<Rightarrow> (r, NewErrorResult err, Some err)
      | Inr exec \<Rightarrow>
          if \<not> IsAvailable exec (self exec)
          then let err = ''executor '' @ Name exec @ '' is not available''
               in (r, NewErrorResult err, Some err)
          else case Execute exec (self exec) action of
                 (s, res, err) \<Rightarrow> (put_back r (Action action) s, res, err))"

definition GetAllActions :: "'s Registry \<Rightarrow> string list" where
  "GetAllActions r = concat (map (\<lambda>(k, exec). SupportedActions exec) r)"

text \<open>The OBS executor behind the interface.\<close>

definition obs_SupportedActions :: "string list" where
  "obs_SupportedActions =
     [''obs.scene'', ''obs.source.show'', ''obs.source.hide'', ''obs.volume'', ''obs.mute'',
      ''obs.unmute'', ''obs.text'']"

definition obs_as_Executor :: "obs_env \<Rightarrow> obs_Executor \<Rightarrow> obs_Executor Executor" where
  "obs_as_Executor env e =
     \<lparr>Name = ''obs'', SupportedActions = obs_SupportedActions, CanHandle = obs_CanHandle,
      IsAvailable = obs_IsAvailable, Execute = obs_Execute env, self = e\<rparr>"

subsection \<open>internal/brain: the orchestrator\<close>

text \<open>
  The methods of the language-model and speech providers that the Brain calls. A
  provider's answers are taken to be the same throughout one command.
\<close>

record llm_Provider =
  llm_Name :: string
  llm_IsAvailable :: bool
  llm_Complete :: "string \<Rightarrow> error + llm_Action"

record tts_Provider =
  tts_Name :: string
  tts_IsAvailable :: bool

record 's Brain =
  llmProvider :: "llm_Provider option"
  ttsProvider :: "tts_Provider option"
  registry :: "'s Registry"

text \<open>The calls made on the language-model provider, in order.\<close>

datatype provider_call = CallIsAvailable | CallComplete string

record 's returned =
  ret_brain :: "'s Brain"
  ret_response :: string
  ret_err :: "error option"
  ret_calls :: "provider_call list"

datatype 's command_outcome = Returned "'s returned" | Panicked string | OutsideModel

fun Join :: "string list \<Rightarrow> string \<Rightarrow> string" where
  "Join [] sep = []"
| "Join [x] sep = x"
| "Join (x # y # ys) sep = x @ sep @ Join (y # ys) sep"

definition degraded_message :: string where
  "degraded_message =
     ''No hay ning'' @ u_acute @ ''n proveedor de IA disponible. Revisa tu configuraci'' @ o_acute @
     ''n o prueba m'' @ a_acute @ ''s tarde.''"

definition executor_status :: "'s Registry \<Rightarrow> string \<Rightarrow> string list" where
  "executor_status r actionName =
     (case Get r actionName of
        Some exec \<Rightarrow>
          if IsAvailable exec (self exec) then [actionName @ '': conectado'']
          else [actionName @ '': desconectado'']
      | None \<Rightarrow> [])"

definition handleStatus :: "'s Brain \<Rightarrow> provider_call list \<Rightarrow> 's command_outcome" where
  "handleStatus b cs =
     (case llmProvider b of
        None \<Rightarrow> Panicked ''invalid memory address or nil pointer dereference''
      | Some p \<Rightarrow>
          let status1 = (if llm_IsAvailable p then [''LLM '' @ llm_Name p @ '': activo'']
                         else [''LLM '' @ llm_Name p @ '': no disponible'']);
              status2 = (case ttsProvider b of
                           Some t \<Rightarrow> if tts_IsAvailable t then [''TTS '' @ tts_Name t @ '': activo'']
                                     else [''TTS: no disponible'']
                         | None \<Rightarrow> [''TTS: no disponible'']);
              status3 = concat (map (executor_status (registry b)) [''twitch'', ''obs'', ''music''])
          in Returned \<lparr>ret_brain = b,
                       ret_response = ''Estado del sistema: '' @ Join (status1 @ status2 @ status3) '', '',
                       ret_err = None, ret_calls = cs @ [CallIsAvailable]\<rparr>)"

definition category_count :: "string list \<Rightarrow> string \<Rightarrow> nat" where
  "category_count actions cat =
     length (filter (\<lambda>a. let parts = Split (\<lambda>c. c = CHR ''.'') a
                          in 2 \<le> length parts \<and> parts ! 0 = cat) actions)"

definition handleHelp :: "'s Brain \<Rightarrow> provider_call list \<Rightarrow> 's command_outcome" where
  "handleHelp b cs =
     (let actions = GetAllActions (registry b);
          nt = category_count actions ''twitch'';
          no = category_count actions ''obs'';
          nm = category_count actions ''music'';
          help = [''Puedo ayudarte con:'']
               @ (if 0 < nt then [''- Twitch: '' @ fmt_d nt @ '' acciones (clips, t'' @ i_acute @ ''tulo, bans)''] else [])
               @ (if 0 < no then [''- OBS: '' @ fmt_d no @ '' acciones (escenas, fuentes, volumen)''] else [])
               @ (if 0 < nm then [''- M'' @ u_acute @ ''sica: '' @ fmt_d nm @ '' acciones (play, pause, volumen)''] else [])
               @ [[CHR 0xC2, CHR 0xBF] @ ''Qu'' @ e_acute @ '' necesitas?'']
      in Returned \<lparr>ret_brain = b, ret_response = Join help '' '', ret_err = None, ret_calls = cs\<rparr>)"

definition handleCalc :: "'s Brain \<Rightarrow> llm_Action \<Rightarrow> provider_call list \<Rightarrow> 's command_outcome" where
  "handleCalc b action cs =
     (let apology = ''No entiendo la expresi'' @ o_acute @ ''n matem'' @ a_acute @
                      ''tica. Por favor intenta de nuevo.''
      in case Params action ''expression'' of
           Some (PString expression) \<Rightarrow>
             if expression = [] then Returned \<lparr>ret_brain = b, ret_response = apology, ret_err = None, ret_calls = cs\<rparr>
             else (case evaluateExpression expression of
                     Value result \<Rightarrow> Returned \<lparr>ret_brain = b, ret_response = Reply action, ret_err = None, ret_calls = cs\<rparr>
                   | Failure e \<Rightarrow>
                       Returned \<lparr>ret_brain = b,
                                 ret_response = ''No pude calcular esa expresi'' @ o_acute @ ''n: '' @ e,
                                 ret_err = None, ret_calls = cs\<rparr>
                   | Panic m \<Rightarrow> Panicked m
                   | Unmodelled \<Rightarrow> OutsideModel)
         | _ \<Rightarrow> Returned \<lparr>ret_brain = b, ret_response = apology, ret_err = None, ret_calls = cs\<rparr>)"

text \<open>
  \<^verbatim>\<open>
  func (b *Brain) ProcessCommand(ctx context.Context, text string) (string, error) {
      if b.llmProvider == nil || !b.llmProvider.IsAvailable(ctx) {
          return "No hay ningun proveedor de IA disponible. ...", nil
      }
      action, err := b.llmProvider.Complete(ctx, text)
      if err != nil { return "", fmt.Errorf("failed to interpret command: %w", err) }
      if action.Action == "none" || action.Action == "" { return action.Reply, nil }
      if action.Action == "system.status" { return b.handleStatus(ctx, action) }
      if action.Action == "system.help" { return b.handleHelp(ctx, action) }
      if action.Action == "calc" { return b.handleCalc(ctx, action) }
      result, err := b.registry.Execute(ctx, action)
      if err != nil {
          return fmt.Sprintf("%s. Sin embargo, hubo un error: %s", action.Reply, err.Error()), nil
      }
      if !result.Success { return fmt.Sprintf("%s. Error: %s", action.Reply, result.Error), nil }
      return action.Reply, nil
  }
  \<close>
\<close>

definition ProcessCommand :: "'s Brain \<Rightarrow> string \<Rightarrow> 's command_outcome" where
  "ProcessCommand b text =
     (case llmProvider b of
        None \<Rightarrow> Returned \<lparr>ret_brain = b, ret_response = degraded_message, ret_err = None, ret_calls = []\<rparr>
      | Some p \<Rightarrow>
          if \<not> llm_IsAvailable p
          then Returned \<lparr>ret_brain = b, ret_response = degraded_message, ret_err = None,
                         ret_calls = [CallIsAvailable]\<rparr>
          else
            let cs = [CallIsAvailable, CallComplete text]
            in case llm_Complete p text of
                 Inl e \<Rightarrow> Returned \<lparr>ret_brain = b, ret_response = [],
                                     ret_err = Some (''failed to interpret command: '' @ e), ret_calls = cs\<rparr>
               | Inr action \<Rightarrow>
                   if Action action = ''none'' \<or> Action action = []
                   then Returned \<lparr>ret_brain = b, ret_response = Reply action, ret_err = None, ret_calls = cs\<rparr>
                   else if Action action = ''system.status'' then handleStatus b cs
                   else if Action action = ''system.help'' then handleHelp b cs
                   else if Action action = ''calc'' then handleCalc b action cs
                   else case Registry_Execute (registry b) action of
                          (r, result, Some e) \<Rightarrow>
                            Returned \<lparr>ret_brain = b\<lparr>registry := r\<rparr>,
                                      ret_response = Reply action @ ''. Sin embargo, hubo un error: '' @ e,
                                      ret_err = None, ret_calls = cs\<rparr>
                        | (r, result, None) \<Rightarrow>
                            if \<not> Success result
                            then Returned \<lparr>ret_brain = b\<lparr>registry := r\<rparr>,
                                           ret_response = Reply action @ ''. Error: '' @ Error result,
                                           ret_err = None, ret_calls = cs\<rparr>
                            else Returned \<lparr>ret_brain = b\<lparr>registry := r\<rparr>,
                                           ret_response = Reply action, ret_err = None, ret_calls = cs\<rparr>)"

subsection \<open>internal/config: the configuration tree\<close>

text \<open>
  The structs of \<^verbatim>\<open>config.go\<close>. A field \<^verbatim>\<open>F\<close> of struct \<^verbatim>\<open>SConfig\<close> is named \<open>S_F\<close>,
  since several structs share field names. Go's \<^verbatim>\<open>int\<close> is \<open>int\<close>.
\<close>

record GeneralConfig =
  General_Language :: string
  General_LogLevel :: string
  General_DataDir :: string

record VADConfig =
  VAD_Enabled :: bool
  VAD_Sensitivity :: float64
  VAD_SilenceThresholdMs :: int
  VAD_MinSpeechMs :: int

record WakeWordConfig =
  WakeWord_Enabled :: bool
  WakeWord_Word :: string
  WakeWord_Threshold :: float64

record AudioConfig =
  Audio_Device :: string
  Audio_SampleRate :: int
  Audio_Channels :: int
  Audio_ChunkSize :: int
  Audio_VAD :: VADConfig
  Audio_WakeWord :: WakeWordConfig

record HotkeyConfig =
  Hotkey_Enabled :: bool
  Hotkey_Key :: string
  Hotkey_Mode :: string

record WhisperConfig =
  Whisper_BinaryPath :: string
  Whisper_ModelPath :: string
  Whisper_Language :: string

record OpenAISTTConfig =
  OpenAISTT_APIKey :: string
  OpenAISTT_Model :: string

record STTConfig =
  STT_Provider :: string
  STT_Whisper :: WhisperConfig
  STT_OpenAI :: OpenAISTTConfig

record OllamaConfig =
  Ollama_URL :: string
  Ollama_Model :: string
  Ollama_TimeoutSeconds :: int

record OpenAILLMConfig =
  OpenAILLM_APIKey :: string
  OpenAILLM_Model :: string
  OpenAILLM_Temperature :: float64

record LLMConfig =
  LLM_Provider :: string
  LLM_Ollama :: OllamaConfig
  LLM_OpenAI :: OpenAILLMConfig

record PiperConfig =
  Piper_BinaryPath :: string
  Piper_ModelPath :: string
  Piper_Speed :: float64

record OpenAITTSConfig =
  OpenAITTS_APIKey :: string
  OpenAITTS_Model :: string
  OpenAITTS_Voice :: string

record TTSConfig =
  TTS_Provider :: string
  TTS_Piper :: PiperConfig
  TTS_OpenAI :: OpenAITTSConfig

record TwitchConfig =
  Twitch_Enabled :: bool
  Twitch_ClientID :: string
  Twitch_ClientSecret :: string
  Twitch_RedirectURI :: string
  Twitch_BroadcasterID :: string
  Twitch_AccessToken :: string
  Twitch_RefreshToken :: string

record OBSConfig =
  OBS_Enabled :: bool
  OBS_URL :: string
  OBS_Password :: string

record MusicConfig =
  Music_Enabled :: bool
  Music_Folders :: "string list"
  Music_SupportedFormats :: "string list"
  Music_DefaultVolume :: float64
  Music_Shuffle :: bool

record SoundsConfig =
  Sounds_Enabled :: bool
  Sounds_Wake :: string
  Sounds_Error :: string
  Sounds_StartRecording :: string
  Sounds_StopRecording :: string

record Config =
  General :: GeneralConfig
  Audio :: AudioConfig
  Hotkey :: HotkeyConfig
  STT :: STTConfig
  LLM :: LLMConfig
  TTS :: TTSConfig
  Twitch :: TwitchConfig
  OBS :: OBSConfig
  Music :: MusicConfig
  Sounds :: SoundsConfig

definition DefaultConfig :: Config where
  "DefaultConfig =
     \<lparr>General = \<lparr>General_Language = ''es'', General_LogLevel = ''info'', General_DataDir = ''./data''\<rparr>,
      Audio = \<lparr>Audio_Device = ''default'', Audio_SampleRate = 16000, Audio_Channels = 1,
               Audio_ChunkSize = 1024,
               Audio_VAD = \<lparr>VAD_Enabled = True, VAD_Sensitivity = 1 / 2,
                            VAD_SilenceThresholdMs = 1500, VAD_MinSpeechMs = 300\<rparr>,
               Audio_WakeWord = \<lparr>WakeWord_Enabled = True, WakeWord_Word = ''jarvis'',
                                 WakeWord_Threshold = rnd64 (7 / 10)\<rparr>\<rparr>,
      Hotkey = \<lparr>Hotkey_Enabled = True, Hotkey_Key = ''F4'', Hotkey_Mode = ''hold''\<rparr>,
      STT = \<lparr>STT_Provider = ''whisper'',
             STT_Whisper = \<lparr>Whisper_BinaryPath = ''./bin/whisper'',
                             Whisper_ModelPath = ''./assets/models/whisper/ggml-base.bin'',
                             Whisper_Language = ''es''\<rparr>,
             STT_OpenAI = \<lparr>OpenAISTT_APIKey = [], OpenAISTT_Model = ''whisper-1''\<rparr>\<rparr>,
      LLM = \<lparr>LLM_Provider = ''ollama'',
             LLM_Ollama = \<lparr>Ollama_URL = ''http://localhost:11434'', Ollama_Model = ''llama3.2:3b'',
                            Ollama_TimeoutSeconds = 30\<rparr>,
             LLM_OpenAI = \<lparr>OpenAILLM_APIKey = [], OpenAILLM_Model = ''gpt-4o-mini'',
                            OpenAILLM_Temperature = rnd64 (3 / 10)\<rparr>\<rparr>,
      TTS = \<lparr>TTS_Provider = ''piper'',
             TTS_Piper = \<lparr>Piper_BinaryPath = ''./bin/piper'',
                           Piper_ModelPath = ''./assets/voices/piper/es_ES-davefx-medium.onnx'',
                           Piper_Speed = 1\<rparr>,
             TTS_OpenAI = \<lparr>OpenAITTS_APIKey = [], OpenAITTS_Model = ''tts-1'', OpenAITTS_Voice = ''nova''\<rparr>\<rparr>,
      Twitch = \<lparr>Twitch_Enabled = False, Twitch_ClientID = [], Twitch_ClientSecret = [],
                Twitch_RedirectURI = ''http://localhost:3000/callback'', Twitch_BroadcasterID = [],
                Twitch_AccessToken = [], Twitch_RefreshToken = []\<rparr>,
      OBS = \<lparr>OBS_Enabled = False, OBS_URL = ''ws://localhost:4455'', OBS_Password = []\<rparr>,
      Music = \<lparr>Music_Enabled = True, Music_Folders = [''./music''],
               Music_SupportedFormats = [''.mp3'', ''.wav'', ''.ogg'', ''.flac''],
               Music_DefaultVolume = 1 / 2, Music_Shuffle = False\<rparr>,
      Sounds = \<lparr>Sounds_Enabled = True, Sounds_Wake = ''./assets/sounds/wake.wav'',
                Sounds_Error = ''./assets/sounds/error.wav'',
                Sounds_StartRecording = ''./assets/sounds/beep_start.wav'',
                Sounds_StopRecording = ''./assets/sounds/beep_end.wav''\<rparr>\<rparr>"

text \<open>\<^verbatim>\<open>if field == zero { field = default }\<close>, for the three kinds of field.\<close>

definition orStr :: "string \<Rightarrow> string \<Rightarrow> string" where
  "orStr v d = (if v = [] then d else v)"

definition orInt :: "int \<Rightarrow> int \<Rightarrow> int" where
  "orInt v d = (if v = 0 then d else v)"

definition orFloat :: "float64 \<Rightarrow> float64 \<Rightarrow> float64" where
  "orFloat v d = (if v = 0 then d else v)"

definition orList :: "string list \<Rightarrow> string list \<Rightarrow> string list" where
  "orList v d = (if length v = 0 then d else v)"

definition ApplyDefaults :: "Config \<Rightarrow> Config" where
  "ApplyDefaults cfg =
     (let defaults = DefaultConfig;
          g = General cfg; dg = General defaults;
          a = Audio cfg; da = Audio defaults;
          v = Audio_VAD a; dv = Audio_VAD da;
          w = Audio_WakeWord a; dw = Audio_WakeWord da;
          h = Hotkey cfg; dh = Hotkey defaults;
          s = STT cfg; ds = STT defaults;
          l = LLM cfg; dl = LLM defaults;
          t = TTS cfg; dt = TTS defaults;
          m = Music cfg; dm = Music defaults;
          sn = Sounds cfg; dsn = Sounds defaults
      in cfg
         \<lparr>General := g\<lparr>General_Language := orStr (General_Language g) (General_Language dg),
                        General_LogLevel := orStr (General_LogLevel g) (General_LogLevel dg),
                        General_DataDir := orStr (General_DataDir g) (General_DataDir dg)\<rparr>,
          Audio := a\<lparr>Audio_SampleRate := orInt (Audio_SampleRate a) (Audio_SampleRate da),
                      Audio_Channels := orInt (Audio_Channels a) (Audio_Channels da),
                      Audio_ChunkSize := orInt (Audio_ChunkSize a) (Audio_ChunkSize da),
                      Audio_Device := orStr (Audio_Device a) (Audio_Device da),
                      Audio_VAD := v\<lparr>VAD_SilenceThresholdMs :=
                                         orInt (VAD_SilenceThresholdMs v) (VAD_SilenceThresholdMs dv),
                                       VAD_MinSpeechMs := orInt (VAD_MinSpeechMs v) (VAD_MinSpeechMs dv)\<rparr>,
                      Audio_WakeWord := w\<lparr>WakeWord_Word := orStr (WakeWord_Word w) (WakeWord_Word dw),
                                            WakeWord_Threshold :=
                                              orFloat (WakeWord_Threshold w) (WakeWord_Threshold dw)\<rparr>\<rparr>,
          Hotkey := h\<lparr>Hotkey_Key := orStr (Hotkey_Key h) (Hotkey_Key dh),
                        Hotkey_Mode := orStr (Hotkey_Mode h) (Hotkey_Mode dh)\<rparr>,
          STT := s\<lparr>STT_Provider := orStr (STT_Provider s) (STT_Provider ds),
                    STT_Whisper := (STT_Whisper s)
                      \<lparr>Whisper_BinaryPath :=
                         orStr (Whisper_BinaryPath (STT_Whisper s)) (Whisper_BinaryPath (STT_Whisper ds)),
                       Whisper_Language :=
                         orStr (Whisper_Language (STT_Whisper s)) (Whisper_Language (STT_Whisper ds))\<rparr>,
                    STT_OpenAI := (STT_OpenAI s)
                      \<lparr>OpenAISTT_Model :=
                         orStr (OpenAISTT_Model (STT_OpenAI s)) (OpenAISTT_Model (STT_OpenAI ds))\<rparr>\<rparr>,
          LLM := l\<lparr>LLM_Provider := orStr (LLM_Provider l) (LLM_Provider dl),
                    LLM_Ollama := (LLM_Ollama l)
                      \<lparr>Ollama_URL := orStr (Ollama_URL (LLM_Ollama l)) (Ollama_URL (LLM_Ollama dl)),
                       Ollama_Model := orStr (Ollama_Model (LLM_Ollama l)) (Ollama_Model (LLM_Ollama dl)),
                       Ollama_TimeoutSeconds :=
                         orInt (Ollama_TimeoutSeconds (LLM_Ollama l)) (Ollama_TimeoutSeconds (LLM_Ollama dl))\<rparr>,
                    LLM_OpenAI := (LLM_OpenAI l)
                      \<lparr>OpenAILLM_Model :=
                         orStr (OpenAILLM_Model (LLM_OpenAI l)) (OpenAILLM_Model (LLM_OpenAI dl)),
                       OpenAILLM_Temperature :=
                         orFloat (OpenAILLM_Temperature (LLM_OpenAI l)) (OpenAILLM_Temperature (LLM_OpenAI dl))\<rparr>\<rparr>,
          TTS := t\<lparr>TTS_Provider := orStr (TTS_Provider t) (TTS_Provider dt),
                    TTS_Piper := (TTS_Piper t)
                      \<lparr>Piper_BinaryPath :=
                         orStr (Piper_BinaryPath (TTS_Piper t)) (Piper_BinaryPath (TTS_Piper dt)),
                       Piper_Speed := orFloat (Piper_Speed (TTS_Piper t)) (Piper_Speed (TTS_Piper dt))\<rparr>,
                    TTS_OpenAI := (TTS_OpenAI t)
                      \<lparr>OpenAITTS_Model :=
                         orStr (OpenAITTS_Model (TTS_OpenAI t)) (OpenAITTS_Model (TTS_OpenAI dt)),
                       OpenAITTS_Voice :=
                         orStr (OpenAITTS_Voice (TTS_OpenAI t)) (OpenAITTS_Voice (TTS_OpenAI dt))\<rparr>\<rparr>,
          Twitch := (Twitch cfg)
            \<lparr>Twitch_RedirectURI :=
               orStr (Twitch_RedirectURI (Twitch cfg)) (Twitch_RedirectURI (Twitch defaults))\<rparr>,
          OBS := (OBS cfg)\<lparr>OBS_URL := orStr (OBS_URL (OBS cfg)) (OBS_URL (OBS defaults))\<rparr>,
          Music := m\<lparr>Music_Folders := orList (Music_Folders m) (Music_Folders dm),
                      Music_SupportedFormats :=
                        orList (Music_SupportedFormats m) (Music_SupportedFormats dm),
                      Music_DefaultVolume := orFloat (Music_DefaultVolume m) (Music_DefaultVolume dm)\<rparr>,
          Sounds := sn\<lparr>Sounds_Wake := orStr (Sounds_Wake sn) (Sounds_Wake dsn),
                        Sounds_Error := orStr (Sounds_Error sn) (Sounds_Error dsn),
                        Sounds_StartRecording :=
                          orStr (Sounds_StartRecording sn) (Sounds_StartRecording dsn),
                        Sounds_StopRecording :=
                          orStr (Sounds_StopRecording sn) (Sounds_StopRecording dsn)\<rparr>\<rparr>)"

text \<open>\<open>expandEnvVars\<close>, with \<^verbatim>\<open>os.ExpandEnv\<close> taken from the process environment \<open>X\<close>.\<close>

definition expandEnvVars :: "(string \<Rightarrow> string) \<Rightarrow> Config \<Rightarrow> Config" where
  "expandEnvVars X cfg =
     (let s = STT cfg; t = TTS cfg; sn = Sounds cfg
      in cfg
         \<lparr>STT := s\<lparr>STT_OpenAI := (STT_OpenAI s)\<lparr>OpenAISTT_APIKey := X (OpenAISTT_APIKey (STT_OpenAI s))\<rparr>,
                    STT_Whisper := (STT_Whisper s)
                      \<lparr>Whisper_BinaryPath := X (Whisper_BinaryPath (STT_Whisper s)),
                       Whisper_ModelPath := X (Whisper_ModelPath (STT_Whisper s))\<rparr>\<rparr>,
          LLM := (LLM cfg)
            \<lparr>LLM_OpenAI := (LLM_OpenAI (LLM cfg))
               \<lparr>OpenAILLM_APIKey := X (OpenAILLM_APIKey (LLM_OpenAI (LLM cfg)))\<rparr>\<rparr>,
          TTS := t\<lparr>TTS_OpenAI := (TTS_OpenAI t)\<lparr>OpenAITTS_APIKey := X (OpenAITTS_APIKey (TTS_OpenAI t))\<rparr>,
                    TTS_Piper := (TTS_Piper t)
                      \<lparr>Piper_BinaryPath := X (Piper_BinaryPath (TTS_Piper t)),
                       Piper_ModelPath := X (Piper_ModelPath (TTS_Piper t))\<rparr>\<rparr>,
          General := (General cfg)\<lparr>General_DataDir := X (General_DataDir (General cfg))\<rparr>,
          Music := (Music cfg)\<lparr>Music_Folders := map X (Music_Folders (Music cfg))\<rparr>,
          Sounds := sn\<lparr>Sounds_Wake := X (Sounds_Wake sn),
                        Sounds_Error := X (Sounds_Error sn),
                        Sounds_StartRecording := X (Sounds_StartRecording sn),
                        Sounds_StopRecording := X (Sounds_StopRecording sn)\<rparr>\<rparr>)"

text \<open>
  \<open>Validate\<close> collects every violation, in the order of the checks, and reports them in
  one error; \<open>None\<close> is the nil error.
\<close>

definition validation_errors :: "Config \<Rightarrow> string list" where
  "validation_errors cfg =
     (let stt = STT cfg; llm = LLM cfg; tts = TTS cfg
      in (if STT_Provider stt = ''whisper'' then []
          else if STT_Provider stt = ''openai'' then
            (if OpenAISTT_APIKey (STT_OpenAI stt) = []
             then [''OpenAI API key required for STT when using OpenAI provider''] else [])
          else [''invalid STT provider: '' @ STT_Provider stt @ '' (must be 'whisper' or 'openai')''])
       @ (if LLM_Provider llm = ''ollama'' then
            (if Ollama_URL (LLM_Ollama llm) = []
             then [''Ollama URL required when using Ollama provider''] else [])
            @ (if Ollama_Model (LLM_Ollama llm) = []
               then [''Ollama model required when using Ollama provider''] else [])
          else if LLM_Provider llm = ''openai'' then
            (if OpenAILLM_APIKey (LLM_OpenAI llm) = []
             then [''OpenAI API key required for LLM when using OpenAI provider''] else [])
          else if LLM_Provider llm = ''auto'' then
            (if OpenAILLM_APIKey (LLM_OpenAI llm) = [] \<and> Ollama_URL (LLM_Ollama llm) = []
             then [''Auto LLM provider requires either Ollama config or OpenAI API key''] else [])
          else [''invalid LLM provider: '' @ LLM_Provider llm @ '' (must be 'ollama', 'openai' or 'auto')''])
       @ (if TTS_Provider tts = ''piper'' then []
          else if TTS_Provider tts = ''openai'' then
            (if OpenAITTS_APIKey (TTS_OpenAI tts) = []
             then [''OpenAI API key required for TTS when using OpenAI provider''] else [])
          else if TTS_Provider tts = ''auto'' then
            (if OpenAITTS_APIKey (TTS_OpenAI tts) = [] \<and> Piper_BinaryPath (TTS_Piper tts) = []
             then [''Auto TTS provider requires either Piper binary or OpenAI API key''] else [])
          else [''invalid TTS provider: '' @ TTS_Provider tts @ '' (must be 'piper', 'openai' or 'auto')''])
       @ (if Twitch_Enabled (Twitch cfg) \<and> Twitch_ClientID (Twitch cfg) = []
          then [''Twitch client_id required when Twitch is enabled''] else [])
       @ (if Audio_SampleRate (Audio cfg) \<le> 0 then [''audio sample_rate must be positive''] else [])
       @ (if Audio_Channels (Audio cfg) \<le> 0 then [''audio channels must be positive''] else [])
       @ (if VAD_Sensitivity (Audio_VAD (Audio cfg)) < 0 \<or> VAD_Sensitivity (Audio_VAD (Audio cfg)) > 1
          then [''VAD sensitivity must be between 0 and 1''] else [])
       @ (if Hotkey_Enabled (Hotkey cfg) \<and> Hotkey_Mode (Hotkey cfg) \<noteq> ''hold''
               \<and> Hotkey_Mode (Hotkey cfg) \<noteq> ''toggle''
          then [''hotkey mode must be 'hold' or 'toggle'' @ [CHR 0x27]] else [])
       @ (if Music_DefaultVolume (Music cfg) < 0 \<or> Music_DefaultVolume (Music cfg) > 1
          then [''music default_volume must be between 0 and 1''] else []))"

definition Validate :: "Config \<Rightarrow> error option" where
  "Validate cfg =
     (let errors = validation_errors cfg
      in if length errors > 0
         then Some (''validation errors:'' @ [CHR 0x0A] @ ''- '' @ Join errors ([CHR 0x0A] @ ''- ''))
         else None)"

text \<open>
  What \<^verbatim>\<open>viper\<close> finds. With an explicit path, \<open>ReadInConfig\<close> reads that file and a
  missing file is an ordinary read error; with no path it searches \<open>ConfigPaths\<close> for
  \<^verbatim>\<open>jarvis.config\<close> and reports \<open>ConfigFileNotFoundError\<close> when no directory has it. A
  file that is there is \<open>Unreadable\<close> when \<open>ReadInConfig\<close> fails on it, \<open>Malformed\<close> when
  \<open>Unmarshal\<close> fails, and otherwise the tree that \<open>Unmarshal\<close> fills in (after the
  \<^verbatim>\<open>JARVIS_\<close> environment overlay).
\<close>

datatype file_content = Unreadable error | Malformed error | Tree Config

record config_world =
  file_at :: "string \<Rightarrow> file_content option"
  found_on_search_path :: "string option"
  ExpandEnv :: "string \<Rightarrow> string"

datatype read_outcome = ConfigFileNotFoundError | ReadFailed error | ReadDone file_content

definition ReadInConfig :: "config_world \<Rightarrow> string \<Rightarrow> read_outcome" where
  "ReadInConfig w configPath =
     (if configPath \<noteq> [] then
        (case file_at w configPath of
           None \<Rightarrow> ReadFailed (''open '' @ configPath @ '': no such file or directory'')
         | Some c \<Rightarrow> ReadDone c)
      else
        (case found_on_search_path w of
           None \<Rightarrow> ConfigFileNotFoundError
         | Some path \<Rightarrow>
             (case file_at w path of
                None \<Rightarrow> ReadFailed (''open '' @ path @ '': no such file or directory'')
              | Some c \<Rightarrow> ReadDone c)))"

definition Load :: "config_world \<Rightarrow> string \<Rightarrow> error + Config" where
  "Load w configPath =
     (case ReadInConfig w configPath of
        ConfigFileNotFoundError \<Rightarrow> Inr DefaultConfig
      | ReadFailed e \<Rightarrow> Inl (''error reading config file: '' @ e)
      | ReadDone (Unreadable e) \<Rightarrow> Inl (''error reading config file: '' @ e)
      | ReadDone (Malformed e) \<Rightarrow> Inl (''error parsing config file: '' @ e)
      | ReadDone (Tree cfg0) \<Rightarrow>
          let cfg = expandEnvVars (ExpandEnv w) (ApplyDefaults cfg0)
          in case Validate cfg of
               Some e \<Rightarrow> Inl (''config validation error: '' @ e)
             | None \<Rightarrow> Inr cfg)"

subsection \<open>pkg/utils: bytes to samples\<close>

type_synonym byte = "8 word"

text \<open>
  \<^verbatim>\<open>samples[i] = int16(binary.LittleEndian.Uint16(data[i*2:]))\<close> for \<open>i < len(data)/2\<close>; a
  trailing odd byte is ignored.
\<close>

fun BytesToInt16 :: "byte list \<Rightarrow> int16 list" where
  "BytesToInt16 (lo # hi # rest) = word_of_nat (unat lo + 256 * unat hi) # BytesToInt16 rest"
| "BytesToInt16 _ = []"

subsection \<open>internal/pipeline: channels, state and the recording session\<close>

text \<open>
  A Go channel as far as this package uses it: the queued values and whether the channel
  has been closed. \<open>close\<close> on a closed channel is a run-time panic. A receive is ready
  when a value is queued or the channel is closed.
\<close>

record 'a chan =
  chan_buf :: "'a list"
  chan_cap :: nat
  chan_closed :: bool

definition make_chan :: "nat \<Rightarrow> 'a chan" where
  "make_chan n = \<lparr>chan_buf = [], chan_cap = n, chan_closed = False\<rparr>"

definition close_chan :: "'a chan \<Rightarrow> string + 'a chan" where
  "close_chan c = (if chan_closed c then Inl ''close of closed channel'' else Inr (c\<lparr>chan_closed := True\<rparr>))"

definition recv_ready :: "'a chan \<Rightarrow> bool" where
  "recv_ready c = (chan_buf c \<noteq> [] \<or> chan_closed c)"

definition recv :: "'a chan \<Rightarrow> 'a chan" where
  "recv c = c\<lparr>chan_buf := tl (chan_buf c)\<rparr>"

datatype State = StateIdle | StateListening | StateRecording | StateProcessing

text \<open>
  A \<^verbatim>\<open>time.Time\<close> is the number of nanoseconds since the zero time; \<open>IsZero\<close> holds of 0
  only. A \<^verbatim>\<open>time.Duration\<close> is a number of nanoseconds.
\<close>

type_synonym Time = int

definition IsZero :: "Time \<Rightarrow> bool" where
  "IsZero t = (t = 0)"

text \<open>
  What the pipeline does to the outside: callbacks (when set), the speech-to-text call,
  the calls into the Brain, and the goroutine that waits for silence.
\<close>

datatype event =
    EvStateChange State
  | EvTranscript string
  | EvResponse string
  | EvError error
  | EvTranscribe "byte list"
  | EvProcessCommand string
  | EvProcessAndSpeak string
  | EvSpawnRecorder

record Pipeline =
  cfg :: Config
  state :: State
  audioBuffer :: "byte list"
  wakeWordChan :: "unit chan"
  hotkeyDown :: "unit chan"
  hotkeyUp :: "unit chan"
  audioChan :: "byte list chan"
  stopChan :: "unit chan"
  silenceStart :: Time
  speechStart :: Time
  hasSpeech :: bool
  onStateChange :: bool
  onTranscript :: bool
  onResponse :: bool
  onError :: bool
  events :: "event list"

definition NewPipeline :: "Config \<Rightarrow> Pipeline" where
  "NewPipeline c =
     \<lparr>cfg = c, state = StateIdle, audioBuffer = [],
      wakeWordChan = make_chan 1, hotkeyDown = make_chan 1, hotkeyUp = make_chan 1,
      audioChan = make_chan 100, stopChan = make_chan 0,
      silenceStart = 0, speechStart = 0, hasSpeech = False,
      onStateChange = False, onTranscript = False, onResponse = False, onError = False,
      events = []\<rparr>"

definition emit :: "bool \<Rightarrow> event \<Rightarrow> Pipeline \<Rightarrow> Pipeline" where
  "emit callback_set ev p = (if callback_set then p\<lparr>events := events p @ [ev]\<rparr> else p)"

definition setState :: "Pipeline \<Rightarrow> State \<Rightarrow> Pipeline" where
  "setState p s =
     (let oldState = state p; p1 = p\<lparr>state := s\<rparr>
      in if oldState \<noteq> s then emit (onStateChange p1) (EvStateChange s) p1 else p1)"

text \<open>
  \<^verbatim>\<open>
  func (p *Pipeline) Stop() {
      p.log.Info().Msg("Stopping pipeline")
      close(p.stopChan)
  }
  \<close>
  \<open>Inl\<close> is the panic.
\<close>

definition Stop :: "Pipeline \<Rightarrow> string + Pipeline" where
  "Stop p = (case close_chan (stopChan p) of Inl m \<Rightarrow> Inl m | Inr c \<Rightarrow> Inr (p\<lparr>stopChan := c\<rparr>))"

definition startRecording :: "Pipeline \<Rightarrow> Pipeline" where
  "startRecording p =
     (setState (p\<lparr>audioBuffer := []\<rparr>) StateRecording)
       \<lparr>hasSpeech := False, silenceStart := 0, speechStart := 0\<rparr>"

text \<open>\<^verbatim>\<open>threshold := float64(500) * (1.0 - p.cfg.Audio.VAD.Sensitivity)\<close>\<close>

definition vad_threshold :: "Pipeline \<Rightarrow> float64" where
  "vad_threshold p = rnd64 (500 * rnd64 (1 - VAD_Sensitivity (Audio_VAD (Audio (cfg p)))))"

definition analyzeVAD :: "Time \<Rightarrow> Pipeline \<Rightarrow> byte list \<Rightarrow> Pipeline" where
  "analyzeVAD now p audio =
     (let samples = BytesToInt16 audio;
          rms = CalculateRMS samples;
          threshold = vad_threshold p;
          isSpeech = (rms > threshold)
      in if isSpeech then
           (if \<not> hasSpeech p then p\<lparr>speechStart := now, hasSpeech := True\<rparr> else p)\<lparr>silenceStart := 0\<rparr>
         else if hasSpeech p \<and> IsZero (silenceStart p) then p\<lparr>silenceStart := now\<rparr>
         else p)"

text \<open>
  \<open>handleAudio\<close>, at time \<open>now\<close>. The goroutine it starts in the idle state
  (\<open>recordUntilSilence\<close>, then \<open>processRecordedAudio\<close>) is recorded as \<open>EvSpawnRecorder\<close>.
\<close>

definition handleAudio :: "Time \<Rightarrow> Pipeline \<Rightarrow> byte list \<Rightarrow> Pipeline" where
  "handleAudio now p audio =
     (let state0 = state p;
          vad = VAD_Enabled (Audio_VAD (Audio (cfg p)));
          p1 = (if state0 = StateIdle \<and> vad then
                  (if CalculateRMS (BytesToInt16 audio) > vad_threshold p
                   then (startRecording (setState p StateListening))
                          \<lparr>events := events (startRecording (setState p StateListening)) @ [EvSpawnRecorder]\<rparr>
                   else p)
                else p)
      in if state0 = StateListening \<or> state0 = StateRecording
            \<or> state p1 = StateListening \<or> state p1 = StateRecording
         then
           let p2 = p1\<lparr>audioBuffer := audioBuffer p1 @ audio\<rparr>
           in if vad then analyzeVAD now p2 audio else p2
         else p1)"

text \<open>The frames that the main loop hands to \<open>handleAudio\<close>, each with its arrival time.\<close>

definition feed :: "Pipeline \<Rightarrow> (Time \<times> byte list) list \<Rightarrow> Pipeline" where
  "feed p chunks = foldl (\<lambda>q (t, a). handleAudio t q a) p chunks"

text \<open>
  The outside of \<open>processRecordedAudio\<close>: the clock at the \<^verbatim>\<open>time.Since\<close> call, the
  speech-to-text provider (\<open>Inr\<close> the text of the result), and what
  \<open>Brain.ProcessCommand\<close> returns.
\<close>

text \<open>
  A \<^verbatim>\<open>time.Duration\<close> is an \<^verbatim>\<open>int64\<close> count of nanoseconds. Its multiplication wraps
  around, so \<^verbatim>\<open>time.Duration(ms) * time.Millisecond\<close> is \<open>Milliseconds ms\<close>; and
  \<^verbatim>\<open>time.Since(t)\<close>, read at the time \<open>now\<close>, is the difference, which \<^verbatim>\<open>Time.Sub\<close>
  holds within the \<^verbatim>\<open>int64\<close> range.
\<close>

definition wrap64 :: "int \<Rightarrow> int" where
  "wrap64 n = (n + 2 ^ 63) mod 2 ^ 64 - 2 ^ 63"

definition Milliseconds :: "int \<Rightarrow> int" where
  "Milliseconds ms = wrap64 (ms * 1000000)"

definition Since :: "Time \<Rightarrow> Time \<Rightarrow> int" where
  "Since now t = max (- (2 ^ 63)) (min (2 ^ 63 - 1) (now - t))"

record pipeline_env =
  clock :: Time
  Transcribe :: "byte list \<Rightarrow> error + string"
  brain_ProcessCommand :: "string \<Rightarrow> string \<times> error option"

text \<open>The return statement by which \<open>processRecordedAudio\<close> leaves.\<close>

datatype finalization =
    NoAudio
  | SpeechTooShort
  | TranscriptionFailed
  | EmptyTranscription
  | CommandFailed
  | Processed

text \<open>
  \<^verbatim>\<open>
  func (p *Pipeline) processRecordedAudio(ctx context.Context) {
      p.setState(StateProcessing)
      defer p.setState(StateIdle)
      audio := p.audioBuffer.Bytes(); p.audioBuffer.Reset()
      if len(audio) == 0 { return }
      minSpeech := time.Duration(p.cfg.Audio.VAD.MinSpeechMs) * time.Millisecond
      if p.hasSpeech && !p.speechStart.IsZero() {
          speechDuration := time.Since(p.speechStart)
          if speechDuration < minSpeech { return }
      }
      result, err := p.sttProvider.Transcribe(ctx, audio)
      if err != nil { onError(transcription failed); return }
      text := result.Text
      if text == "" { return }
      onTranscript(text)
      response, err := p.brain.ProcessCommand(ctx, text)
      if err != nil { onError(command processing failed); return }
      if response != "" { onResponse(response) }
      p.brain.ProcessAndSpeak(ctx, text)
  }
  \<close>
\<close>

definition processRecordedAudio :: "pipeline_env \<Rightarrow> Pipeline \<Rightarrow> Pipeline \<times> finalization" where
  "processRecordedAudio env p =
     (let p1 = setState p StateProcessing;
          audio = audioBuffer p1;
          p2 = p1\<lparr>audioBuffer := []\<rparr>
      in if length audio = 0 then (setState p2 StateIdle, NoAudio)
         else
           let minSpeech = Milliseconds (VAD_MinSpeechMs (Audio_VAD (Audio (cfg p2))))
           in if hasSpeech p2 \<and> \<not> IsZero (speechStart p2)
                 \<and> Since (clock env) (speechStart p2) < minSpeech
              then (setState p2 StateIdle, SpeechTooShort)
              else
                let p3 = p2\<lparr>events := events p2 @ [EvTranscribe audio]\<rparr>
                in case Transcribe env audio of
                     Inl e \<Rightarrow>
                       (setState (emit (onError p3) (EvError (''transcription failed: '' @ e)) p3) StateIdle,
                        TranscriptionFailed)
                   | Inr text \<Rightarrow>
                       if text = [] then (setState p3 StateIdle, EmptyTranscription)
                       else
                         let p4 = emit (onTranscript p3) (EvTranscript text) p3;
                             p5 = p4\<lparr>events := events p4 @ [EvProcessCommand text]\<rparr>
                         in case brain_ProcessCommand env text of
                              (resp, Some e) \<Rightarrow>
                                (setState (emit (onError p5) (EvError (''command processing failed: '' @ e)) p5)
                                   StateIdle,
                                 CommandFailed)
                            | (resp, None) \<Rightarrow>
                                let p6 = (if resp \<noteq> [] then emit (onResponse p5) (EvResponse resp) p5 else p5);
                                    p7 = p6\<lparr>events := events p6 @ [EvProcessAndSpeak text]\<rparr>
                                in (setState p7 StateIdle, Processed))"

text \<open>
  The main loop \<open>run\<close>: the cases of its \<^verbatim>\<open>select\<close> that can proceed, and what the loop
  does for the case that is chosen (\<open>True\<close>: the loop returns).
\<close>

datatype run_case = CaseCtxDone | CaseStop | CaseWakeWord | CaseHotkeyDown | CaseHotkeyUp | CaseAudio

definition ready_cases :: "bool \<Rightarrow> Pipeline \<Rightarrow> run_case list" where
  "ready_cases ctx_done p =
     (if ctx_done then [CaseCtxDone] else [])
     @ (if recv_ready (stopChan p) then [CaseStop] else [])
     @ (if recv_ready (wakeWordChan p) then [CaseWakeWord] else [])
     @ (if recv_ready (hotkeyDown p) then [CaseHotkeyDown] else [])
     @ (if recv_ready (hotkeyUp p) then [CaseHotkeyUp] else [])
     @ (if recv_ready (audioChan p) then [CaseAudio] else [])"

definition handleWakeWord :: "Pipeline \<Rightarrow> Pipeline" where
  "handleWakeWord p =
     (let p1 = startRecording (setState p StateListening)
      in p1\<lparr>events := events p1 @ [EvSpawnRecorder]\<rparr>)"

definition handleHotkeyRelease :: "pipeline_env \<Rightarrow> Pipeline \<Rightarrow> Pipeline" where
  "handleHotkeyRelease env p =
     (if state p \<noteq> StateRecording then p else fst (processRecordedAudio env p))"

fun run_body :: "pipeline_env \<Rightarrow> Pipeline \<Rightarrow> run_case \<Rightarrow> Pipeline \<times> bool" where
  "run_body env p CaseCtxDone = (p, True)"
| "run_body env p CaseStop = (p\<lparr>stopChan := recv (stopChan p)\<rparr>, True)"
| "run_body env p CaseWakeWord = (handleWakeWord (p\<lparr>wakeWordChan := recv (wakeWordChan p)\<rparr>), False)"
| "run_body env p CaseHotkeyDown = (startRecording (p\<lparr>hotkeyDown := recv (hotkeyDown p)\<rparr>), False)"
| "run_body env p CaseHotkeyUp = (handleHotkeyRelease env (p\<lparr>hotkeyUp := recv (hotkeyUp p)\<rparr>), False)"
| "run_body env p CaseAudio =
     (case chan_buf (audioChan p) of
        [] \<Rightarrow> (handleAudio (clock env) p [], False)
      | audio # rest \<Rightarrow> (handleAudio (clock env) (p\<lparr>audioChan := recv (audioChan p)\<rparr>) audio, False))"

subsection \<open>internal/executor/music: the music player\<close>

text \<open>
  Library functions on paths and strings, for Unix paths (\<open>/\<close> is the separator) and
  ASCII letters.
\<close>

definition Base :: "string \<Rightarrow> string" where
  "Base path =
     (if path = [] then ''.''
      else
        let p = rev (dropWhile (\<lambda>c. c = CHR ''/'') (rev path));
            l = rev (takeWhile (\<lambda>c. c \<noteq> CHR ''/'') (rev p))
        in if l = [] then ''/'' else l)"

definition Ext :: "string \<Rightarrow> string" where
  "Ext path =
     (let r = takeWhile (\<lambda>c. c \<noteq> CHR ''/'') (rev path)
      in if CHR ''.'' \<in> set r then CHR ''.'' # rev (takeWhile (\<lambda>c. c \<noteq> CHR ''.'') r) else [])"

definition lowerChar :: "char \<Rightarrow> char" where
  "lowerChar c =
     (case map_of (zip ''ABCDEFGHIJKLMNOPQRSTUVWXYZ'' ''abcdefghijklmnopqrstuvwxyz'') c of
        Some l \<Rightarrow> l
      | None \<Rightarrow> c)"

definition ToLower :: "string \<Rightarrow> string" where
  "ToLower s = map lowerChar s"

fun Contains :: "string \<Rightarrow> string \<Rightarrow> bool" where
  "Contains [] sub = (sub = [])"
| "Contains (c # cs) sub = (take (length sub) (c # cs) = sub \<or> Contains cs sub)"

text \<open>
  The executor's fields, with \<open>currentCmd\<close> reduced to whether a player process is
  running; \<open>kills\<close> counts the \<^verbatim>\<open>Process.Kill\<close> calls and \<open>loops\<close> the playback loops
  started with \<^verbatim>\<open>go e.playLoop()\<close>.
\<close>

record music_Executor =
  folders :: "string list"
  supportedFormats :: "string list"
  defaultVolume :: float64
  shuffle :: bool
  music_enabled :: bool
  playlist :: "string list"
  currentIdx :: int
  isPlaying :: bool
  isPaused :: bool
  music_volume :: float64
  currentCmd :: bool
  kills :: nat
  loops :: nat

text \<open>
  The file system as \<^verbatim>\<open>filepath.Walk\<close> presents it: for a root folder, the visited paths
  in order, each a directory, a file, or an entry whose visit reports an error. And the
  permutation \<^verbatim>\<open>rand.Shuffle\<close> applies.
\<close>

datatype walk_entry = WalkError | DirEntry | FileEntry

record music_env =
  walk :: "string \<Rightarrow> (string \<times> walk_entry) list"
  shuffled :: "string list \<Rightarrow> string list"

text \<open>
  The callback of \<open>loadPlaylist\<close>: whether a visited entry is appended to the playlist
  (\<open>query\<close> already in lower case).
\<close>

definition accepts :: "music_Executor \<Rightarrow> string \<Rightarrow> string \<times> walk_entry \<Rightarrow> bool" where
  "accepts e query entry =
     (case entry of
        (path, WalkError) \<Rightarrow> False
      | (path, DirEntry) \<Rightarrow> False
      | (path, FileEntry) \<Rightarrow>
          ToLower (Ext path) \<in> set (supportedFormats e)
          \<and> (query = [] \<or> Contains (ToLower (Base path)) query))"

definition loadPlaylist :: "music_env \<Rightarrow> music_Executor \<Rightarrow> string \<Rightarrow> music_Executor \<times> error option" where
  "loadPlaylist env e query0 =
     (let query = ToLower query0
      in (e\<lparr>playlist :=
              concat (map (\<lambda>folder. map fst (filter (accepts e query) (walk env folder))) (folders e))\<rparr>,
          None))"

definition kill_current :: "music_Executor \<Rightarrow> music_Executor" where
  "kill_current e = (if currentCmd e then e\<lparr>kills := kills e + 1\<rparr> else e)"

text \<open>
  \<^verbatim>\<open>
  func (e *Executor) play(ctx context.Context, action llm.Action) (executor.Result, error) {
      query := action.GetStringParam("query")
      if err := e.loadPlaylist(query); err != nil { return executor.NewErrorResult(err), err }
      if len(e.playlist) == 0 { return executor.NewErrorResult(fmt.Errorf("no music found")), nil }
      if e.shuffle { e.shufflePlaylist() }
      e.currentIdx = 0
      go e.playLoop()
      currentTrack := filepath.Base(e.playlist[e.currentIdx])
      return executor.NewResultWithData("Playing music", {"track": currentTrack, "total": len(e.playlist)}), nil
  }
  \<close>
\<close>

definition play :: "music_env \<Rightarrow> music_Executor \<Rightarrow> llm_Action \<Rightarrow> music_Executor \<times> Result \<times> error option" where
  "play env e action =
     (let query = GetStringParam action ''query''
      in case loadPlaylist env e query of
           (e1, Some err) \<Rightarrow> (e1, NewErrorResult err, Some err)
         | (e1, None) \<Rightarrow>
             if length (playlist e1) = 0 then (e1, NewErrorResult ''no music found'', None)
             else
               let e2 = (if shuffle e1 then e1\<lparr>playlist := shuffled env (playlist e1)\<rparr> else e1);
                   e3 = e2\<lparr>currentIdx := 0, loops := loops e2 + 1\<rparr>;
                   currentTrack = Base (playlist e3 ! 0)
               in (e3,
                   NewResultWithData ''Playing music''
                     [(''track'', JString currentTrack), (''total'', JInt (int (length (playlist e3))))],
                   None))"

text \<open>
  The playback loop, between two tracks. At its head the loop returns when the index is
  past the end (\<open>None\<close>), and otherwise starts the track at the index. When a track ends
  (by itself or killed) and no stop was signalled, the loop increments the index and goes
  back to its head.
\<close>

definition playLoop_head :: "music_Executor \<Rightarrow> music_Executor \<times> string option" where
  "playLoop_head e =
     (if currentIdx e \<ge> int (length (playlist e)) then (e\<lparr>isPlaying := False\<rparr>, None)
      else (e\<lparr>isPlaying := True, isPaused := False, currentCmd := True\<rparr>,
            Some (playlist e ! nat (currentIdx e))))"

definition playLoop_track_ended :: "music_Executor \<Rightarrow> music_Executor \<times> string option" where
  "playLoop_track_ended e = playLoop_head (e\<lparr>currentCmd := False, currentIdx := currentIdx e + 1\<rparr>)"

definition pause :: "music_Executor \<Rightarrow> music_Executor \<times> Result \<times> error option" where
  "pause e =
     (if \<not> isPlaying e then (e, NewErrorResult ''nothing is playing'', None)
      else ((kill_current e)\<lparr>isPaused := True\<rparr>, NewResult ''Music paused'', None))"


text \<open>
  \<^verbatim>\<open>
  func (e *Executor) next(ctx context.Context) (executor.Result, error) {
      if len(e.playlist) == 0 { return executor.NewErrorResult(fmt.Errorf("no playlist")), nil }
      if e.currentCmd != nil && e.currentCmd.Process != nil { e.currentCmd.Process.Kill() }
      // Index will be incremented by playLoop
      nextIdx := e.currentIdx + 1
      if nextIdx >= len(e.playlist) { nextIdx = 0 } // Loop back
      track := ""
      if nextIdx < len(e.playlist) { track = filepath.Base(e.playlist[nextIdx]) }
      return executor.NewResultWithData("Next track", {"track": track}), nil
  }
  \<close>
  The index \<open>nextIdx + 1\<close> can be negative only if \<open>currentIdx < -1\<close>, which no method
  leaves behind; the read is then out of range.
\<close>

definition "next" :: "music_Executor \<Rightarrow> music_Executor \<times> (string + Result \<times> error option)" where
  "next e =
     (if length (playlist e) = 0 then (e, Inr (NewErrorResult ''no playlist'', None))
      else
        let e1 = kill_current e;
            nextIdx0 = currentIdx e1 + 1;
            nextIdx = (if nextIdx0 \<ge> int (length (playlist e1)) then 0 else nextIdx0)
        in if nextIdx < int (length (playlist e1)) \<and> nextIdx < 0
           then (e1, Inl ''index out of range'')
           else
             let track = (if nextIdx < int (length (playlist e1))
                          then Base (playlist e1 ! nat nextIdx) else [])
             in (e1, Inr (NewResultWithData ''Next track'' [(''track'', JString track)], None)))"

text \<open>
  \<^verbatim>\<open>
  func (e *Executor) previous(ctx context.Context) (executor.Result, error) {
      if len(e.playlist) == 0 { return executor.NewErrorResult(fmt.Errorf("no playlist")), nil }
      if e.currentCmd != nil && e.currentCmd.Process != nil { e.currentCmd.Process.Kill() }
      // Go back one (will be incremented by playLoop, so go back 2)
      e.currentIdx -= 2
      if e.currentIdx < 0 { e.currentIdx = len(e.playlist) - 2 }
      if e.currentIdx < 0 { e.currentIdx = 0 }
      track := filepath.Base(e.playlist[e.currentIdx+1])
      return executor.NewResultWithData("Previous track", {"track": track}), nil
  }
  \<close>
  \<open>Inl\<close> is the panic of an index out of range.
\<close>

definition previous :: "music_Executor \<Rightarrow> music_Executor \<times> (string + Result \<times> error option)" where
  "previous e =
     (if length (playlist e) = 0 then (e, Inr (NewErrorResult ''no playlist'', None))
      else
        let e1 = kill_current e;
            idx1 = currentIdx e1 - 2;
            idx2 = (if idx1 < 0 then int (length (playlist e1)) - 2 else idx1);
            idx3 = (if idx2 < 0 then 0 else idx2);
            e2 = e1\<lparr>currentIdx := idx3\<rparr>
        in if idx3 + 1 \<ge> int (length (playlist e2)) then (e2, Inl ''index out of range'')
           else
             let track = Base (playlist e2 ! nat (idx3 + 1))
             in (e2, Inr (NewResultWithData ''Previous track'' [(''track'', JString track)], None)))"





subsection \<open>internal/executor/twitch: authenticated requests\<close>

definition twitchAPIURL :: string where
  "twitchAPIURL = ''https://api.twitch.tv/helix''"

definition twitchAuthURL :: string where
  "twitchAuthURL = ''https://id.twitch.tv/oauth2''"

record twitch_Executor =
  clientID :: string
  clientSecret :: string
  redirectURI :: string
  broadcasterID :: string
  accessToken :: string
  refreshToken :: string
  twitch_enabled :: bool

text \<open>
  An HTTP request as the executor builds it. A form body keeps its fields
  (\<^verbatim>\<open>url.Values.Encode\<close> sorts and escapes them on the wire).
\<close>

datatype req_body = NoBody | RawBody string | FormBody "(string \<times> string) list"

record http_request =
  req_method :: string
  req_url :: string
  req_headers :: "(string \<times> string) list"
  req_body :: req_body

text \<open>
  A response: its status code and what reading its body gives, the whole body or a read
  error together with the bytes read before it.
\<close>

record http_response =
  resp_status :: nat
  resp_body :: "error \<times> string + string"

text \<open>
  The outside of the executor. \<open>NewRequest_error\<close> is the error of
  \<^verbatim>\<open>http.NewRequestWithContext\<close> for a method and a URL, if any. \<open>Do\<close> is the HTTP
  client talking to the platform: its answer to a request may depend on the requests sent
  before. \<open>decode_tokens\<close> is \<^verbatim>\<open>json.NewDecoder(resp.Body).Decode\<close> of a token response
  into the access and the refresh token.
\<close>

record twitch_env =
  NewRequest_error :: "string \<Rightarrow> string \<Rightarrow> error option"
  Do :: "http_request list \<Rightarrow> http_request \<Rightarrow> error + http_response"
  decode_tokens :: "error \<times> string + string \<Rightarrow> error + string \<times> string"

text \<open>
  \<open>refreshAccessToken\<close>. The state is the executor together with the list of requests
  sent so far; the result is the error, \<open>None\<close> for nil.
\<close>

definition refreshAccessToken ::
  "twitch_env \<Rightarrow> twitch_Executor \<times> http_request list \<Rightarrow> twitch_Executor \<times> http_request list \<times> error option" where
  "refreshAccessToken env st =
     (case st of (e, sent) \<Rightarrow>
        if refreshToken e = [] then (e, sent, Some ''no refresh token available'')
        else
          case NewRequest_error env ''POST'' (twitchAuthURL @ ''/token'') of
            Some er \<Rightarrow> (e, sent, Some er)
          | None \<Rightarrow>
              let req = \<lparr>req_method = ''POST'', req_url = twitchAuthURL @ ''/token'',
                         req_headers = [(''Content-Type'', ''application/x-www-form-urlencoded'')],
                         req_body = FormBody [(''grant_type'', ''refresh_token''),
                                              (''refresh_token'', refreshToken e),
                                              (''client_id'', clientID e),
                                              (''client_secret'', clientSecret e)]\<rparr>
              in case Do env sent req of
                   Inl er \<Rightarrow> (e, sent @ [req], Some er)
                 | Inr resp \<Rightarrow>
                     if resp_status resp \<noteq> 200
                     then (e, sent @ [req],
                           Some (''token refresh failed: ''
                                 @ (case resp_body resp of Inl (er, partial) \<Rightarrow> partial | Inr b \<Rightarrow> b)))
                     else
                       (case decode_tokens env (resp_body resp) of
                          Inl er \<Rightarrow> (e, sent @ [req], Some er)
                        | Inr (newAccess, newRefresh) \<Rightarrow>
                            (e\<lparr>accessToken := newAccess, refreshToken := newRefresh\<rparr>, sent @ [req], None)))"

text \<open>
  The request that \<open>apiRequest\<close> builds: bearer token and client id, and the JSON content
  type when there is a body. And what counts as a refresh request.
\<close>

definition api_request_of :: "twitch_Executor \<Rightarrow> string \<Rightarrow> string \<Rightarrow> string option \<Rightarrow> http_request" where
  "api_request_of e method endpoint body =
     \<lparr>req_method = method, req_url = twitchAPIURL @ endpoint,
      req_headers = [(''Authorization'', ''Bearer '' @ accessToken e), (''Client-Id'', clientID e)]
                    @ (if body \<noteq> None then [(''Content-Type'', ''application/json'')] else []),
      req_body = (case body of None \<Rightarrow> NoBody | Some b \<Rightarrow> RawBody b)\<rparr>"

definition is_refresh :: "http_request \<Rightarrow> bool" where
  "is_refresh r = (req_url r = twitchAuthURL @ ''/token'')"

text \<open>
  \<^verbatim>\<open>
  func (e *Executor) apiRequest(ctx, method, endpoint string, body []byte) ([]byte, error) {
      reqURL := twitchAPIURL + endpoint
      req, err := http.NewRequestWithContext(ctx, method, reqURL, body or nil)
      if err != nil { return nil, fmt.Errorf("failed to create request: %w", err) }
      req.Header.Set("Authorization", "Bearer "+e.accessToken)
      req.Header.Set("Client-Id", e.clientID)
      if body != nil { req.Header.Set("Content-Type", "application/json") }
      resp, err := e.client.Do(req)
      if err != nil { return nil, fmt.Errorf("request failed: %w", err) }
      respBody, err := io.ReadAll(resp.Body)
      if err != nil { return nil, fmt.Errorf("failed to read response: %w", err) }
      if resp.StatusCode == http.StatusUnauthorized {
          if err := e.refreshAccessToken(ctx); err != nil {
              return nil, fmt.Errorf("unauthorized and failed to refresh token: %w", err)
          }
          return e.apiRequest(ctx, method, endpoint, body)
      }
      if resp.StatusCode >= 400 {
          return nil, fmt.Errorf("API error %d: %s", resp.StatusCode, string(respBody))
      }
      return respBody, nil
  }
  \<close>
  The function calls itself after a successful refresh, with nothing that bounds the
  number of calls: the first argument is the number of nested calls allowed, and the
  result is \<open>None\<close> when they do not suffice. A call that never returns is \<open>None\<close> for
  every such number.
\<close>

fun apiRequest ::
  "nat \<Rightarrow> twitch_env \<Rightarrow> twitch_Executor \<times> http_request list \<Rightarrow> string \<Rightarrow> string \<Rightarrow> string option
   \<Rightarrow> (twitch_Executor \<times> http_request list \<times> (error + string)) option" where
  "apiRequest 0 env st method endpoint body = None"
| "apiRequest (Suc n) env st method endpoint body =
     (case st of (e, sent) \<Rightarrow>
        let reqURL = twitchAPIURL @ endpoint
        in case NewRequest_error env method reqURL of
             Some er \<Rightarrow> Some (e, sent, Inl (''failed to create request: '' @ er))
           | None \<Rightarrow>
               let req = api_request_of e method endpoint body
               in case Do env sent req of
                    Inl er \<Rightarrow> Some (e, sent @ [req], Inl (''request failed: '' @ er))
                  | Inr resp \<Rightarrow>
                      (case resp_body resp of
                         Inl (er, partial) \<Rightarrow>
                           Some (e, sent @ [req], Inl (''failed to read response: '' @ er))
                       | Inr respBody \<Rightarrow>
                           if resp_status resp = 401 then
                             (case refreshAccessToken env (e, sent @ [req]) of
                                (e1, sent1, Some er) \<Rightarrow>
                                  Some (e1, sent1, Inl (''unauthorized and failed to refresh token: '' @ er))
                              | (e1, sent1, None) \<Rightarrow> apiRequest n env (e1, sent1) method endpoint body)
                           else if resp_status resp \<ge> 400 then
                             Some (e, sent @ [req],
                                   Inl (''API error '' @ fmt_d (resp_status resp) @ '': '' @ respBody))
                           else Some (e, sent @ [req], Inr respBody)))"

subsection \<open>Concrete inputs used below\<close>

definition C7_action :: "float64 \<Rightarrow> llm_Action" where
  "C7_action v = \<lparr>Action = ''obs.volume'',
                  Params = [''source'' \<mapsto> PString ''Mic'', ''volume'' \<mapsto> PFloat v],
                  Reply = ''ok''\<rparr>"

definition C7_executor :: obs_Executor where
  "C7_executor = \<lparr>url = ''ws://localhost:4455'', password = [], enabled = True, connected = True,
                   requestID = 0, dials = 0, requests = []\<rparr>"

definition C7_env :: obs_env where
  "C7_env = \<lparr>dialOutcome = Identified, respond = (\<lambda>n t d. Timeout)\<rparr>"

definition C9_env :: obs_env where
  "C9_env = \<lparr>dialOutcome = Identified, respond = (\<lambda>n t d. Timeout)\<rparr>"

definition C9_obs :: obs_Executor where
  "C9_obs = \<lparr>url = ''ws://localhost:4455'', password = [], enabled = True, connected = False,
              requestID = 0, dials = 0, requests = []\<rparr>"

definition C9_registry :: "obs_Executor Registry" where
  "C9_registry = Register NewRegistry (obs_as_Executor C9_env C9_obs)"

definition C9_action :: llm_Action where
  "C9_action = \<lparr>Action = ''obs.scene'', Params = [''scene'' \<mapsto> PString ''Game''], Reply = ''ok''\<rparr>"

definition C6_provider :: llm_Provider where
  "C6_provider = \<lparr>llm_Name = ''ollama'', llm_IsAvailable = False,
                   llm_Complete = (\<lambda>t. Inl ''dial tcp 127.0.0.1:11434: connection refused'')\<rparr>"

definition C6_brain :: "obs_Executor Brain" where
  "C6_brain = \<lparr>llmProvider = Some C6_provider, ttsProvider = None, registry = NewRegistry\<rparr>"

definition C5_world :: config_world where
  "C5_world = \<lparr>file_at = (\<lambda>p. None), found_on_search_path = None, ExpandEnv = (\<lambda>s. s)\<rparr>"

definition C8_config :: Config where
  "C8_config = DefaultConfig\<lparr>Audio := (Audio DefaultConfig)
                 \<lparr>Audio_VAD := (Audio_VAD (Audio DefaultConfig))\<lparr>VAD_Enabled := False\<rparr>\<rparr>\<rparr>"

definition C8_env :: pipeline_env where
  "C8_env = \<lparr>clock = 1000001, Transcribe = (\<lambda>a. Inr ''hola''),
             brain_ProcessCommand = (\<lambda>t. (''ok'', None))\<rparr>"

definition C8_chunks :: "(Time \<times> byte list) list" where
  "C8_chunks = [(1000000, [1, 0])]"

definition C10_env :: pipeline_env where
  "C10_env = \<lparr>clock = 1, Transcribe = (\<lambda>a. Inr []), brain_ProcessCommand = (\<lambda>t. ([], None))\<rparr>"

definition C8_short :: Pipeline where
  "C8_short = (NewPipeline DefaultConfig)\<lparr>audioBuffer := [1, 0], hasSpeech := True, speechStart := 1000000\<rparr>"

definition C8_silent :: Pipeline where
  "C8_silent = (NewPipeline DefaultConfig)\<lparr>audioBuffer := [1, 0]\<rparr>"







text \<open>A platform that answers 401 to every API request and refreshes every token.\<close>

definition C2_env_401 :: twitch_env where
  "C2_env_401 =
     \<lparr>NewRequest_error = (\<lambda>m u. None),
      Do = (\<lambda>sent req.
              if is_refresh req then Inr \<lparr>resp_status = 200, resp_body = Inr ''{}''\<rparr>
              else Inr \<lparr>resp_status = 401, resp_body = Inr []\<rparr>),
      decode_tokens = (\<lambda>b. Inr (''t'', ''r''))\<rparr>"


section \<open>Properties\<close>

subsection \<open>float64 rounding\<close>

text \<open>
  \<open>binade x\<close> is the exponent \<open>k\<close> with \<open>2^k \<le> |x| < 2^(k+1)\<close>, held between the exponents
  -1022 and 1023 of the smallest and the largest normal doubles.
\<close>

lemma roundHalfEven_of_int [simp]: "roundHalfEven (of_int j) = j"
  by (simp add: roundHalfEven_def)

lemma roundHalfEven_error: "\<bar>of_int (roundHalfEven y) - y\<bar> \<le> 1 / 2"
  unfolding roundHalfEven_def Let_def by (auto simp: abs_if) linarith+

lemma scale_down_eq:
  "2 ^ k \<le> a \<Longrightarrow> a < 2 ^ Suc k \<Longrightarrow> k \<le> n \<Longrightarrow> scale_down n a = int k"
proof (induction n arbitrary: a k)
  case 0
  then show ?case by simp
next
  case (Suc n)
  show ?case
  proof (cases "a < 2")
    case True
    have "k = 0"
    proof (rule ccontr)
      assume "k \<noteq> 0"
      then have "(2::real) ^ 1 \<le> 2 ^ k" by (intro power_increasing) simp_all
      with Suc.prems(1) True show False by simp
    qed
    with True show ?thesis by simp
  next
    case False
    then have "k \<noteq> 0" using Suc.prems(2) by (cases k) simp_all
    then obtain k' where k: "k = Suc k'" by (cases k) simp_all
    have "scale_down n (a / 2) = int k'"
      using Suc.prems by (intro Suc.IH) (simp_all add: k)
    with False show ?thesis by (simp add: k)
  qed
qed

lemma scale_down_le: "1 \<le> a \<Longrightarrow> 2 powi scale_down n a \<le> a"
proof (induction n arbitrary: a)
  case 0
  then show ?case by simp
next
  case (Suc n)
  show ?case
  proof (cases "a < 2")
    case True
    with Suc.prems show ?thesis by simp
  next
    case False
    then have "2 powi scale_down n (a / 2) \<le> a / 2" by (intro Suc.IH) simp
    with False show ?thesis by (simp add: power_int_add)
  qed
qed

lemma scale_up_eq:
  "2 powi (- int k) \<le> a \<Longrightarrow> a < 2 powi (1 - int k) \<Longrightarrow> k \<le> n \<Longrightarrow> scale_up n a = - int k"
proof (induction n arbitrary: a k)
  case 0
  then show ?case by simp
next
  case (Suc n)
  show ?case
  proof (cases "1 \<le> a")
    case True
    have "k = 0"
    proof (rule ccontr)
      assume "k \<noteq> 0"
      then have "1 - int k \<le> 0" by simp
      then have "(2::real) powi (1 - int k) \<le> 2 powi 0" by (intro power_int_increasing) simp_all
      with Suc.prems(2) True show False by simp
    qed
    with True show ?thesis by simp
  next
    case False
    have "k \<noteq> 0" using Suc.prems(1) False by (cases k) simp_all
    then obtain k' where k: "k = Suc k'" by (cases k) simp_all
    have e1: "(2::real) powi (- int k') = 2 * 2 powi (- int k)"
      using power_int_add [of "2::real" 1 "- int k"] by (simp add: k)
    have e2: "(2::real) powi (1 - int k') = 2 * 2 powi (1 - int k)"
      using power_int_add [of "2::real" 1 "1 - int k"] by (simp add: k)
    have "scale_up n (a * 2) = - int k'"
      using Suc.prems by (intro Suc.IH) (simp_all add: e1 e2, simp add: k)
    with False show ?thesis by (simp add: k)
  qed
qed

lemma scale_up_floor: "0 \<le> a \<Longrightarrow> a < 2 powi (- int n) \<Longrightarrow> scale_up n a = - int n"
proof (induction n arbitrary: a)
  case 0
  then show ?case by simp
next
  case (Suc n)
  have "(2::real) powi (- int (Suc n)) \<le> 2 powi 0" by (intro power_int_increasing) simp_all
  with Suc.prems have a1: "\<not> 1 \<le> a" by simp
  have e: "(2::real) powi (- int n) = 2 * 2 powi (- int (Suc n))"
    using power_int_add [of "2::real" 1 "- int (Suc n)"] by simp
  have "scale_up n (a * 2) = - int n"
    using Suc.prems by (intro Suc.IH) (simp_all add: e)
  with a1 show ?case by simp
qed

lemma scale_up_le:
  "0 < a \<Longrightarrow> a < 1 \<Longrightarrow> scale_up n a = - int n \<or> 2 powi scale_up n a \<le> a"
proof (induction n arbitrary: a)
  case 0
  then show ?case by simp
next
  case (Suc n)
  show ?case
  proof (cases "a * 2 < 1")
    case True
    from Suc.IH [of "a * 2"] Suc.prems True
    have "scale_up n (a * 2) = - int n \<or> 2 powi scale_up n (a * 2) \<le> a * 2" by simp
    then show ?thesis
    proof
      assume "scale_up n (a * 2) = - int n"
      with Suc.prems show ?thesis by simp
    next
      assume "2 powi scale_up n (a * 2) \<le> a * 2"
      then have "2 powi (scale_up n (a * 2) - 1) \<le> a"
        by (simp add: power_int_diff)
      with Suc.prems show ?thesis by simp
    qed
  next
    case False
    then have "scale_up n (a * 2) = 0" by (cases n) simp_all
    with Suc.prems False show ?thesis by (simp add: power_int_minus)
  qed
qed

lemma binade_eq:
  assumes "2 powi k \<le> \<bar>x\<bar>" and "\<bar>x\<bar> < 2 powi (k + 1)" and "k \<le> 1023"
  shows "binade x = max k (- 1022)"
proof (cases "0 \<le> k")
  case True
  then have "(2::real) powi 0 \<le> 2 powi k" by (intro power_int_increasing) simp_all
  with assms(1) have a1: "1 \<le> \<bar>x\<bar>" by simp
  have "scale_down 1023 \<bar>x\<bar> = int (nat k)"
    using assms True by (intro scale_down_eq) (simp_all add: power_int_def nat_add_distrib)
  with a1 True show ?thesis by (simp add: binade_def)
next
  case False
  then have "(2::real) powi (k + 1) \<le> 2 powi 0" by (intro power_int_increasing) simp_all
  with assms(2) have a1: "\<not> 1 \<le> \<bar>x\<bar>" by simp
  show ?thesis
  proof (cases "- 1022 \<le> k")
    case True
    have "scale_up 1022 \<bar>x\<bar> = - int (nat (- k))"
      using assms False True by (intro scale_up_eq) (simp_all add: algebra_simps)
    with a1 False True show ?thesis by (simp add: binade_def)
  next
    case k: False
    then have "(2::real) powi (k + 1) \<le> 2 powi (- int 1022)" by (intro power_int_increasing) simp_all
    with assms(2) have "\<bar>x\<bar> < 2 powi (- int 1022)" by simp
    then have "scale_up 1022 \<bar>x\<bar> = - int 1022" by (intro scale_up_floor) simp_all
    with a1 k show ?thesis by (simp add: binade_def)
  qed
qed

lemma binade_le:
  assumes "\<bar>x\<bar> < 2 powi (k + 1)" and "- 1022 \<le> k" and "x \<noteq> 0"
  shows "binade x \<le> k"
proof -
  have lt: "b \<le> k" if "2 powi b \<le> \<bar>x\<bar>" for b
  proof (rule ccontr)
    assume "\<not> b \<le> k"
    then have "(2::real) powi (k + 1) \<le> 2 powi b" by (intro power_int_increasing) simp_all
    with that assms(1) show False by simp
  qed
  show ?thesis
  proof (cases "1 \<le> \<bar>x\<bar>")
    case True
    then show ?thesis using lt [OF scale_down_le [OF True, of 1023]] by (simp add: binade_def)
  next
    case False
    then have "scale_up 1022 \<bar>x\<bar> = - int 1022 \<or> 2 powi scale_up 1022 \<bar>x\<bar> \<le> \<bar>x\<bar>"
      using assms(3) by (intro scale_up_le) simp_all
    then show ?thesis using lt [of "scale_up 1022 \<bar>x\<bar>"] False assms(2) by (auto simp: binade_def)
  qed
qed

lemma powr_succ_powi: "(2::real) powr (real_of_int k + 1) = 2 powi (k + 1)"
  using powr_real_of_int' [of 2 "k + 1"] by simp

lemma floor_log2_bounds:
  assumes "0 < (x::real)"
  shows "2 powi \<lfloor>log 2 x\<rfloor> \<le> x" and "x < 2 powi (\<lfloor>log 2 x\<rfloor> + 1)"
proof -
  have "2 powr \<lfloor>log 2 x\<rfloor> \<le> x \<and> x < 2 powr (real_of_int \<lfloor>log 2 x\<rfloor> + 1)"
    using floor_log_eq_powr_iff [of x 2 "\<lfloor>log 2 x\<rfloor>"] assms by simp
  then show "2 powi \<lfloor>log 2 x\<rfloor> \<le> x" and "x < 2 powi (\<lfloor>log 2 x\<rfloor> + 1)"
    by (simp_all only: powr_succ_powi) (simp_all add: powr_real_of_int')
qed

lemma rnd64_binade:
  assumes "2 powi k \<le> \<bar>x\<bar>" and "\<bar>x\<bar> < 2 powi (k + 1)" and "- 1022 \<le> k" and "k \<le> 1023"
  shows "rnd64 x = 2 powi (k - 52) * of_int (roundHalfEven (x / 2 powi (k - 52)))"
proof -
  have "binade x = k" using binade_eq [OF assms(1,2,4)] assms(3) by simp
  then show ?thesis by (simp add: rnd64_def Let_def)
qed

lemma rnd64_0 [simp]: "rnd64 0 = 0"
  using roundHalfEven_of_int [of 0] by (simp add: rnd64_def del: roundHalfEven_of_int)

text \<open>
  A value \<open>m * 2^j\<close> with \<open>|m| < 2^53\<close> and \<open>-1074 \<le> j \<le> 971\<close> is a double: rounding
  leaves it as it is.
\<close>

lemma rnd64_dyadic:
  assumes "\<bar>m\<bar> < 2 ^ 53" and "- 1074 \<le> j" and "j \<le> 971"
  shows "rnd64 (of_int m * 2 powi j) = of_int m * 2 powi j"
proof (cases "m = 0")
  case True
  then show ?thesis by simp
next
  case False
  define x :: real where "x = of_int m * 2 powi j"
  define k0 where "k0 = \<lfloor>log 2 (of_int \<bar>m\<bar>)\<rfloor>"
  have m1: "1 \<le> \<bar>m\<bar>" using False by simp
  have "(2::real) powr 0 \<le> of_int \<bar>m\<bar>" using m1 by simp
  then have k0_lo: "0 \<le> k0"
    unfolding k0_def using m1 by (simp add: le_floor_iff le_log_iff)
  have "real_of_int \<bar>m\<bar> < 2 ^ 53" using assms(1) by (metis of_int_less_numeral_power_cancel_iff)
  then have "real_of_int \<bar>m\<bar> < 2 powr 53" by simp
  then have "log 2 (of_int \<bar>m\<bar>) < 53" using m1 by (simp add: log_less_iff)
  then have k0_hi: "k0 \<le> 52" unfolding k0_def by (simp add: floor_le_iff)
  have mpos: "0 < real_of_int \<bar>m\<bar>" using m1 by linarith
  have k0: "2 powi k0 \<le> real_of_int \<bar>m\<bar>" "real_of_int \<bar>m\<bar> < 2 powi (k0 + 1)"
    unfolding k0_def by (rule floor_log2_bounds [OF mpos])+
  have ax: "\<bar>x\<bar> = real_of_int \<bar>m\<bar> * 2 powi j" by (simp add: x_def abs_mult)
  have b1: "2 powi (k0 + j) \<le> \<bar>x\<bar>"
    unfolding ax using k0(1) by (simp add: power_int_add)
  have b2: "\<bar>x\<bar> < 2 powi (k0 + j + 1)"
    unfolding ax using k0(2) by (simp add: power_int_add)
  have b3: "k0 + j \<le> 1023" using k0_hi assms(3) by simp
  define b where "b = binade x"
  have b: "b = max (k0 + j) (- 1022)" unfolding b_def by (rule binade_eq [OF b1 b2 b3])
  define s where "s = j - b + 52"
  have s0: "0 \<le> s" using b k0_hi assms(2) by (auto simp: s_def max_def)
  have "x / 2 powi (b - 52) = of_int m * 2 powi s"
    by (simp add: x_def s_def power_int_diff power_int_add field_simps)
  also have "\<dots> = of_int (m * 2 ^ nat s)" using s0 by (simp add: power_int_def)
  finally have q: "x / 2 powi (b - 52) = of_int (m * 2 ^ nat s)" .
  have "rnd64 x = 2 powi (b - 52) * of_int (roundHalfEven (x / 2 powi (b - 52)))"
    by (simp add: rnd64_def Let_def b_def)
  also have "\<dots> = 2 powi (b - 52) * of_int (m * 2 ^ nat s)"
    by (simp only: q roundHalfEven_of_int)
  also have "\<dots> = 2 powi (b - 52) * (x / 2 powi (b - 52))" by (simp only: q)
  also have "\<dots> = x" by simp
  finally show ?thesis by (simp add: x_def)
qed

lemma rnd64_of_int: "\<bar>m\<bar> < 2 ^ 53 \<Longrightarrow> rnd64 (of_int m) = of_int m"
  using rnd64_dyadic [of m 0] by simp

lemma rnd64_numeral [simp]:
  "(numeral n :: int) < 2 ^ 53 \<Longrightarrow> rnd64 (numeral n) = numeral n"
  "(numeral n :: int) < 2 ^ 53 \<Longrightarrow> rnd64 (- numeral n) = - numeral n"
  using rnd64_of_int [of "numeral n"] rnd64_of_int [of "- numeral n"] by simp_all

lemma rnd64_simps [simp]: "rnd64 1 = 1" "rnd64 (- 1) = - 1"
  using rnd64_of_int [of 1] rnd64_of_int [of "- 1"] by simp_all

lemma rnd64_half [simp]: "rnd64 (- (1 / 2)) = - (1 / 2)" "rnd64 (1 / 2) = 1 / 2"
  using rnd64_dyadic [of "- 1" "- 1"] rnd64_dyadic [of 1 "- 1"] by (simp_all add: power_int_minus)

text \<open>Rounding moves a value by at most half a unit in the last place of its binade.\<close>

lemma rnd64_error:
  assumes "\<bar>x\<bar> < 2 powi (k + 1)" and "- 1022 \<le> k"
  shows "\<bar>rnd64 x - x\<bar> \<le> 2 powi (k - 53)"
proof (cases "x = 0")
  case True
  then show ?thesis by simp
next
  case False
  define u :: real where "u = 2 powi (binade x - 52)"
  have u0: "0 < u" by (simp add: u_def)
  have "binade x - 52 \<le> k - 52" using binade_le [OF assms False] by simp
  then have uk: "u \<le> 2 powi (k - 52)" unfolding u_def by (intro power_int_increasing) simp_all
  have "rnd64 x - x = u * (of_int (roundHalfEven (x / u)) - x / u)"
    using False u0 by (simp add: rnd64_def Let_def u_def [symmetric] algebra_simps)
  then have "\<bar>rnd64 x - x\<bar> = u * \<bar>of_int (roundHalfEven (x / u)) - x / u\<bar>"
    using u0 by (simp add: abs_mult)
  also have "\<dots> \<le> u * (1 / 2)"
    using roundHalfEven_error [of "x / u"] u0 by (intro mult_left_mono) simp_all
  also have "\<dots> \<le> 2 powi (k - 52) * (1 / 2)" using uk by simp
  also have "\<dots> = 2 powi (k - 53)"
    using power_int_diff [of "2::real" "k - 52" 1] by simp
  finally show ?thesis .
qed

lemma scale_down_cap: "2 ^ n \<le> a \<Longrightarrow> scale_down n a = int n"
proof (induction n arbitrary: a)
  case 0
  then show ?case by simp
next
  case (Suc n)
  have h: "(1::real) \<le> 2 ^ n" by simp
  from Suc.prems have "2 * 2 ^ n \<le> a" by simp
  moreover have "(2::real) \<le> 2 * 2 ^ n" using h by linarith
  ultimately have a2: "\<not> a < 2" by linarith
  have "scale_down n (a / 2) = int n" using Suc.prems by (intro Suc.IH) simp
  with a2 show ?case by simp
qed

lemma roundHalfEven_upper: "y < of_int N - 1 / 2 \<Longrightarrow> roundHalfEven y \<le> N - 1"
  unfolding roundHalfEven_def Let_def by (auto simp: not_less) linarith+

lemma roundHalfEven_lower: "of_int N - 1 / 2 \<le> y \<Longrightarrow> even N \<Longrightarrow> N \<le> roundHalfEven y"
proof -
  assume a: "of_int N - 1 / 2 \<le> y" and e: "even N"
  have f: "N - 1 \<le> \<lfloor>y\<rfloor>" using a by linarith
  show ?thesis
  proof (cases "\<lfloor>y\<rfloor> = N - 1")
    case True
    then have "1 / 2 \<le> y - of_int \<lfloor>y\<rfloor>" using a by simp
    moreover have "odd \<lfloor>y\<rfloor>" using True e by simp
    ultimately show ?thesis using True unfolding roundHalfEven_def Let_def by auto
  next
    case False
    with f have "N \<le> \<lfloor>y\<rfloor>" by simp
    moreover have "\<lfloor>y\<rfloor> \<le> roundHalfEven y" unfolding roundHalfEven_def Let_def by auto
    ultimately show ?thesis by simp
  qed
qed

lemma roundHalfEven_minus: "roundHalfEven (- x) = - roundHalfEven x"
proof (cases "x = of_int \<lfloor>x\<rfloor>")
  case True
  then obtain j where "x = of_int j" by blast
  then show ?thesis using roundHalfEven_of_int [of "- j"] by simp
next
  case False
  then have f: "\<lfloor>- x\<rfloor> = - \<lfloor>x\<rfloor> - 1" by linarith
  have fr: "x - of_int \<lfloor>x\<rfloor> < 1" "0 < x - of_int \<lfloor>x\<rfloor>" using False by linarith+
  show ?thesis
    unfolding roundHalfEven_def Let_def f using fr
    by (auto simp: algebra_simps)
qed

lemma rnd64_minus: "rnd64 (- x) = - rnd64 x"
  by (simp add: rnd64_def binade_def Let_def roundHalfEven_minus)

text \<open>
  The rounded value is finite exactly below the midpoint between the largest double and
  \<open>2^1024\<close>, the threshold at which \<^verbatim>\<open>strconv.ParseFloat\<close> reports a range error.
\<close>

lemma finite64_rnd64: "finite64 (rnd64 x) \<longleftrightarrow> \<bar>x\<bar> < 2 ^ 1024 - 2 ^ 970"
proof -
  define U :: real where "U = 2 ^ 971"
  have U0: "0 < U" by (simp add: U_def)
  have p: "(2::real) ^ 1024 = U * 2 ^ 53" "(2::real) ^ 970 = U / 2" "(2::real) ^ 1023 = U * 2 ^ 52"
          "(2::real) ^ 969 = U / 4"
    unfolding U_def by simp_all
  have pos: "\<bar>rnd64 a\<bar> < U * 2 ^ 53 \<longleftrightarrow> a < U * 2 ^ 53 - U / 2" if a0: "0 \<le> a" for a
  proof (cases "a < U * 2 ^ 52")
    case True
    then have "\<bar>a\<bar> < 2 powi (1022 + 1)" using a0 p(3) by simp
    then have "\<bar>rnd64 a - a\<bar> \<le> 2 powi (1022 - 53)" by (intro rnd64_error) simp_all
    then have "\<bar>rnd64 a - a\<bar> \<le> U / 4" using p(4) by simp
    then have "\<bar>rnd64 a\<bar> \<le> a + U / 4" using a0 by linarith
    then have "\<bar>rnd64 a\<bar> < U * 2 ^ 53" using True U0 by simp
    moreover have "a < U * 2 ^ 53 - U / 2" using True U0 by simp
    ultimately show ?thesis by simp
  next
    case False
    then have big: "2 ^ 1023 \<le> a" using p(3) by simp
    have "(1::real) \<le> 2 ^ 1023" by (rule one_le_power) simp
    with big have a1: "1 \<le> \<bar>a\<bar>" by linarith
    have "scale_down 1023 \<bar>a\<bar> = int 1023" using big a0 by (intro scale_down_cap) simp
    then have b: "binade a = 1023" using a1 by (simp add: binade_def)
    have "rnd64 a = 2 powi 971 * of_int (roundHalfEven (a / 2 powi 971))"
      by (simp add: rnd64_def Let_def b)
    then have r: "rnd64 a = U * of_int (roundHalfEven (a / U))"
      by (simp add: U_def)
    show ?thesis
    proof (cases "a < U * 2 ^ 53 - U / 2")
      case True
      then have "a / U < of_int (2 ^ 53) - 1 / 2" using U0 by (simp add: field_simps)
      then have "roundHalfEven (a / U) \<le> 2 ^ 53 - 1" by (rule roundHalfEven_upper)
      then have "real_of_int (roundHalfEven (a / U)) \<le> real_of_int (2 ^ 53 - 1)"
        by (simp only: of_int_le_iff)
      then have "U * real_of_int (roundHalfEven (a / U)) \<le> U * real_of_int (2 ^ 53 - 1)"
        using U0 by (intro mult_left_mono) simp_all
      then have le: "rnd64 a \<le> U * 2 ^ 53 - U" unfolding r by (simp add: algebra_simps)
      have "0 \<le> a / U" using a0 U0 by simp
      then have "of_int 0 - 1 / 2 \<le> a / U" by simp
      then have "0 \<le> roundHalfEven (a / U)" by (rule roundHalfEven_lower) simp
      then have "0 \<le> rnd64 a" unfolding r using U0 by simp
      with le U0 have "\<bar>rnd64 a\<bar> < U * 2 ^ 53" by simp
      with True show ?thesis by simp
    next
      case False
      then have "of_int (2 ^ 53) - 1 / 2 \<le> a / U" using U0 by (simp add: field_simps)
      then have "2 ^ 53 \<le> roundHalfEven (a / U)" by (rule roundHalfEven_lower) simp
      then have "real_of_int (2 ^ 53) \<le> real_of_int (roundHalfEven (a / U))"
        by (simp only: of_int_le_iff)
      then have "U * real_of_int (2 ^ 53) \<le> U * real_of_int (roundHalfEven (a / U))"
        using U0 by (intro mult_left_mono) simp_all
      then have "U * 2 ^ 53 \<le> rnd64 a" unfolding r by simp
      then have "\<not> \<bar>rnd64 a\<bar> < U * 2 ^ 53" by simp
      with False show ?thesis by simp
    qed
  qed
  have "\<bar>rnd64 x\<bar> < U * 2 ^ 53 \<longleftrightarrow> \<bar>x\<bar> < U * 2 ^ 53 - U / 2"
  proof (cases "0 \<le> x")
    case True
    then show ?thesis using pos [of x] by simp
  next
    case False
    then show ?thesis using pos [of "- x"] by (simp add: rnd64_minus)
  qed
  then show ?thesis unfolding finite64_def p .
qed

subsection \<open>CalculateRMS\<close>

text \<open>
  The squares of 16-bit samples and their partial sums are integers below \<open>2^53\<close> for
  every block shorter than \<open>2^23\<close> samples, so the accumulation is exact and the only
  rounding is that of the final quotient: the code returns the (rounded) mean of the
  squares, the square of the root mean square.
\<close>

lemma int16_square:
  shows "rnd64 (rnd64 (signed (s::int16)) * rnd64 (signed s)) = of_int (sint s * sint s)"
  and "0 \<le> sint s * sint s" and "sint s * sint s \<le> 2 ^ 30"
proof -
  have r: "- (2 ^ 15) \<le> sint s" "sint s < 2 ^ 15"
    using sint_ge [of s] sint_lt [of s] by simp_all
  then have a: "\<bar>sint s\<bar> \<le> 2 ^ 15" by simp
  have "\<bar>sint s\<bar> < 2 ^ 53" using a by simp
  then have c: "rnd64 (signed s) = of_int (sint s)"
    using rnd64_of_int [of "sint s"] by simp
  show n: "0 \<le> sint s * sint s" by simp
  have "\<bar>sint s\<bar> * \<bar>sint s\<bar> \<le> 2 ^ 15 * 2 ^ 15"
    using a by (intro mult_mono) simp_all
  then show b: "sint s * sint s \<le> 2 ^ 30" by (simp add: abs_mult_self_eq)
  from n b have "\<bar>sint s * sint s\<bar> < 2 ^ 53" by simp
  then have "rnd64 (of_int (sint s * sint s)) = of_int (sint s * sint s)"
    by (rule rnd64_of_int)
  then show "rnd64 (rnd64 (signed s) * rnd64 (signed s)) = of_int (sint s * sint s)"
    by (simp add: c)
qed

lemma CalculateRMS_foldl:
  assumes "0 \<le> a" and "a + int (length samples) * 2 ^ 30 < 2 ^ 53"
  shows "foldl (\<lambda>sum sample. rnd64 (sum + rnd64 (rnd64 (signed sample) * rnd64 (signed sample))))
           (of_int a) samples
         = of_int (a + sum_list (map (\<lambda>s. sint (s::int16) * sint s) samples))"
  using assms
proof (induction samples arbitrary: a)
  case Nil
  then show ?case by simp
next
  case (Cons s samples)
  define b where "b = a + sint s * sint s"
  have b0: "0 \<le> b" using Cons.prems(1) int16_square(2) [of s] by (simp add: b_def)
  have b1: "b + int (length samples) * 2 ^ 30 < 2 ^ 53"
    using Cons.prems(2) int16_square(3) [of s] by (simp add: b_def algebra_simps)
  have "\<bar>b\<bar> < 2 ^ 53" using b0 b1 by (smt (verit) mult_nonneg_nonneg of_nat_0_le_iff zero_le_numeral zero_le_power)
  then have "rnd64 (of_int b) = of_int b" by (rule rnd64_of_int)
  then have step: "rnd64 (of_int a + rnd64 (rnd64 (signed s) * rnd64 (signed s))) = of_int b"
    by (simp add: int16_square(1) b_def)
  show ?case
    using Cons.IH [OF b0 b1] by (simp add: step) (simp add: b_def algebra_simps)
qed

lemma CalculateRMS_mean_square:
  assumes "length samples < 2 ^ 23"
  shows "CalculateRMS samples = rnd64 ((rms_spec samples)\<^sup>2)"
proof (cases "samples = []")
  case True
  then show ?thesis by (simp add: CalculateRMS_def rms_spec_def)
next
  case False
  have "int (length samples) < 2 ^ 23" using assms by (metis of_nat_less_numeral_power_cancel_iff)
  then have l: "0 + int (length samples) * 2 ^ 30 < 2 ^ 53" by simp
  have "\<bar>int (length samples)\<bar> < 2 ^ 53" using \<open>int (length samples) < 2 ^ 23\<close> by simp
  then have n: "rnd64 (real (length samples)) = real (length samples)"
    using rnd64_of_int [of "int (length samples)"] by simp
  have f: "foldl (\<lambda>sum sample. rnd64 (sum + rnd64 (rnd64 (signed sample) * rnd64 (signed sample))))
             0 samples
           = of_int (sum_list (map (\<lambda>s. sint (s::int16) * sint s) samples))"
    using CalculateRMS_foldl [of 0 samples] l by simp
  have s: "real_of_int (sum_list (map (\<lambda>s. sint (s::int16) * sint s) samples))
             = sum_list (map (\<lambda>s. (real_of_int (sint s))\<^sup>2) samples)"
    by (induction samples) (simp_all add: power2_eq_square)
  have "0 \<le> sum_list (map (\<lambda>s. (real_of_int (sint (s::int16)))\<^sup>2) samples)"
    by (rule sum_list_nonneg) auto
  then have "0 \<le> sum_list (map (\<lambda>s. (real_of_int (sint (s::int16)))\<^sup>2) samples) / real (length samples)"
    by simp
  with False show ?thesis
    using s by (simp add: CalculateRMS_def rms_spec_def f n)
qed

lemma CalculateRMS_empty: "CalculateRMS [] = 0"
  by (simp add: CalculateRMS_def)

lemma CalculateRMS_all_zero: "CalculateRMS (replicate n 0) = 0"
proof -
  have "foldl (\<lambda>sum sample. rnd64 (sum + rnd64 (rnd64 (signed sample) * rnd64 (signed sample))))
          0 (replicate n (0::int16)) = 0"
    by (induction n) simp_all
  then show ?thesis by (simp add: CalculateRMS_def)
qed

text \<open>
  C4. On the one-sample block \<open>[2]\<close> the code returns the mean square 4, whereas the
  root-mean-square energy of that block is 2: the final square root is missing.
\<close>

theorem C4_CalculateRMS_returns_mean_square:
  "CalculateRMS [2] = 4 \<and> rms_spec [2] = 2 \<and> CalculateRMS [2] \<noteq> rms_spec [2]"
proof -
  have a: "CalculateRMS [2] = 4" by (simp add: CalculateRMS_def)
  have "rms_spec [2] = sqrt (2\<^sup>2)" by (simp add: rms_spec_def)
  then have b: "rms_spec [2] = 2" by (simp del: power2_eq_square)
  from a b show ?thesis by simp
qed

subsection \<open>OBS volume mapping\<close>

lemma sendRequest_requests:
  "connected e \<Longrightarrow>
   requests (fst (sendRequest env e requestType data)) = requests e @ [(requestType, data)]"
  by (simp add: sendRequest_def Let_def split: send_outcome.split)

lemma case_sendRequest_requests:
  assumes "connected e"
  shows "requests (fst (case sendRequest env e T req of
                          (e1, Inl err) \<Rightarrow> (e1, A err)
                        | (e1, Inr resp) \<Rightarrow> if c resp then (e1, B resp) else (e1, C resp)))
         = requests e @ [(T, req)]"
proof -
  obtain e1 r where eq: "sendRequest env e T req = (e1, r)" by (cases "sendRequest env e T req")
  have "requests e1 = requests e @ [(T, req)]"
    using sendRequest_requests [OF assms, of env T req] eq by simp
  then show ?thesis
    by (cases r) (simp_all add: eq)
qed

lemma setVolume_requests:
  assumes "connected e" and "GetStringParam action ''source'' \<noteq> []"
  shows "requests (fst (setVolume env e action)) =
           requests e @
           [(''SetInputVolume'',
             [(''inputName'', JString (GetStringParam action ''source'')),
              (''inputVolumeDb'',
               JFloat (let volume = max 0 (min 1 (GetFloatParam action ''volume''))
                       in if volume \<le> 0 then - 100
                          else rnd64 (rnd64 (20 * rnd64 (volume - 1)) * 2)))])]"
proof -
  have clamp: "(if (if v0 < 0 then 0 else v0) > 1 then 1 else (if v0 < 0 then 0 else v0)) = max 0 (min 1 v0)"
    for v0 :: real
    by (simp add: max_def min_def)
  show ?thesis
    unfolding setVolume_def Let_def clamp
    using assms(2) by (simp only: if_False case_sendRequest_requests [OF assms(1)])
qed

lemma obs_Execute_volume:
  "enabled e \<Longrightarrow> connected e \<Longrightarrow> Action action = ''obs.volume'' \<Longrightarrow>
   obs_Execute env e action = setVolume env e action"
  by (simp add: obs_Execute_def)

text \<open>
  The three roundings move the decibel value by less than \<open>2^-46\<close> from the real number
  \<open>20 * (volume - 1) * 2\<close>.
\<close>

lemma volumeDb_near:
  assumes "0 \<le> v" and "v \<le> 1"
  shows "\<bar>rnd64 (rnd64 (20 * rnd64 (v - 1)) * 2) - 20 * (v - 1) * 2\<bar> \<le> 1 / 2 ^ 46"
proof -
  define a where "a = v - 1"
  define t1 where "t1 = rnd64 a"
  define t2 where "t2 = rnd64 (20 * t1)"
  define t3 where "t3 = rnd64 (t2 * 2)"
  have a: "\<bar>a\<bar> \<le> 1" using assms by (simp add: a_def)
  have e1: "\<bar>t1 - a\<bar> \<le> 1 / 2 ^ 53"
    using rnd64_error [of a 0] a by (simp add: t1_def power_int_minus field_simps)
  have b1: "\<bar>t1\<bar> \<le> 1 + 1 / 2 ^ 53" using e1 a by linarith
  have "\<bar>20 * t1\<bar> < 32" using b1 by (simp add: abs_mult)
  then have e2: "\<bar>t2 - 20 * t1\<bar> \<le> 1 / 2 ^ 49"
    using rnd64_error [of "20 * t1" 4] by (simp add: t2_def power_int_minus field_simps)
  have "\<bar>t2\<bar> \<le> \<bar>t2 - 20 * t1\<bar> + 20 * \<bar>t1\<bar>" by linarith
  then have b2: "\<bar>t2\<bar> < 32" using e2 b1 by simp
  then have "\<bar>t2 * 2\<bar> < 64" by (simp add: abs_mult)
  then have e3: "\<bar>t3 - t2 * 2\<bar> \<le> 1 / 2 ^ 48"
    using rnd64_error [of "t2 * 2" 5] by (simp add: t3_def power_int_minus field_simps)
  have "t3 - 20 * a * 2 \<le> 1 / 2 ^ 48 + 2 * (1 / 2 ^ 49) + 40 * (1 / 2 ^ 53)"
    and "- (1 / 2 ^ 48 + 2 * (1 / 2 ^ 49) + 40 * (1 / 2 ^ 53)) \<le> t3 - 20 * a * 2"
    using e1 e2 e3 unfolding abs_le_iff by linarith+
  then have "\<bar>t3 - 20 * a * 2\<bar> \<le> 1 / 2 ^ 48 + 2 * (1 / 2 ^ 49) + 40 * (1 / 2 ^ 53)"
    unfolding abs_le_iff by linarith
  also have "\<dots> \<le> 1 / 2 ^ 46" by simp
  finally show ?thesis by (simp add: t3_def t2_def t1_def a_def)
qed

text \<open>
  Two volumes on which the roundings show. \<open>3602879701896397 / 2^55\<close> is the double
  nearest to 0.1: the difference rounds to \<open>-8106479329266893 / 2^53\<close>, its product by 20
  rounds to -18, and -36 is sent, where the real-number formula gives a value just
  above -36. \<open>5314247560297185 / 2^54\<close> is the double nearest to 0.295: the value sent is
  \<open>-1984398585810125 / 2^46\<close>, printed -28.200000000000003, and the message says 30 percent.
\<close>

lemma volumeDb_tenth:
  "rnd64 (rnd64 (20 * rnd64 (3602879701896397 / 2 ^ 55 - 1)) * 2) = - 36"
proof -
  have 1: "rnd64 (3602879701896397 / 2 ^ 55 - 1) = - 8106479329266893 / 2 ^ 53"
    using rnd64_binade [of "- 1" "3602879701896397 / 2 ^ 55 - 1"]
    by (simp add: power_int_minus roundHalfEven_def Let_def)
  have 2: "rnd64 (20 * (- 8106479329266893 / 2 ^ 53)) = - 18"
    using rnd64_binade [of 4 "20 * (- 8106479329266893 / 2 ^ 53)"]
    by (simp add: power_int_minus roundHalfEven_def Let_def)
  show ?thesis unfolding 1 2 by simp
qed

lemma volumeDb_0295:
  "rnd64 (rnd64 (20 * rnd64 (5314247560297185 / 2 ^ 54 - 1)) * 2) = - 1984398585810125 / 2 ^ 46"
  and "fmt_f0 (rnd64 (5314247560297185 / 2 ^ 54 * 100)) = ''30''"
proof -
  have 1: "rnd64 (5314247560297185 / 2 ^ 54 - 1) = - 396879717162025 / 2 ^ 49"
    using rnd64_binade [of "- 1" "5314247560297185 / 2 ^ 54 - 1"]
    by (simp add: power_int_minus roundHalfEven_def Let_def)
  have 2: "rnd64 (20 * (- 396879717162025 / 2 ^ 49)) = - 1984398585810125 / 2 ^ 47"
    using rnd64_binade [of 3 "20 * (- 396879717162025 / 2 ^ 49)"]
    by (simp add: power_int_minus roundHalfEven_def Let_def)
  have 3: "rnd64 (- 1984398585810125 / 2 ^ 47 * 2) = - 1984398585810125 / 2 ^ 46"
    using rnd64_binade [of 4 "- 1984398585810125 / 2 ^ 47 * 2"]
    by (simp add: power_int_minus roundHalfEven_def Let_def)
  show "rnd64 (rnd64 (20 * rnd64 (5314247560297185 / 2 ^ 54 - 1)) * 2) = - 1984398585810125 / 2 ^ 46"
    unfolding 1 2 3 by simp
  have 4: "rnd64 (5314247560297185 / 2 ^ 54 * 100) = 59 / 2"
    using rnd64_binade [of 4 "5314247560297185 / 2 ^ 54 * 100"]
    by (simp add: power_int_minus roundHalfEven_def Let_def)
  show "fmt_f0 (rnd64 (5314247560297185 / 2 ^ 54 * 100)) = ''30''"
    unfolding 4 by (simp add: fmt_f0_def roundHalfEven_def Let_def fmt_d.simps digitChar_def)
qed

text \<open>
  C7. \<open>obs.volume\<close> clamps the caller-supplied volume to \<open>[0,1]\<close> and sends, for a positive
  clamped volume, \<open>dB = 20 * (volume - 1) * 2\<close> as float64 arithmetic evaluates it (the
  difference, the product by 20 and the product by 2 each rounded to the nearest
  double), a value within \<open>2^-46\<close> of the real number the formula denotes; for a
  non-positive volume it sends the floor \<open>-100\<close>. On the reference volumes nothing is
  rounded: 1.0 is sent as 0 dB, 0.5 as -20 dB and 0.0 as -100 dB.
\<close>

theorem C7_obs_volume_mapping:
  assumes "enabled e" and "connected e" and "Action action = ''obs.volume''"
    and "GetStringParam action ''source'' = src" and "src \<noteq> []"
    and "GetFloatParam action ''volume'' = v"
  shows "\<exists>dB. requests (fst (obs_Execute env e action)) =
                 requests e @ [(''SetInputVolume'', [(''inputName'', JString src), (''inputVolumeDb'', JFloat dB)])]
              \<and> (v \<le> 0 \<longrightarrow> dB = - 100)
              \<and> (0 < v \<and> v \<le> 1 \<longrightarrow>
                    dB = rnd64 (rnd64 (20 * rnd64 (v - 1)) * 2)
                    \<and> \<bar>dB - 20 * (v - 1) * 2\<bar> \<le> 1 / 2 ^ 46)
              \<and> (1 < v \<longrightarrow> dB = 0)
              \<and> (v = 1 \<longrightarrow> dB = 0) \<and> (v = 1 / 2 \<longrightarrow> dB = - 20) \<and> (v = 0 \<longrightarrow> dB = - 100)"
proof -
  define c where "c = max 0 (min 1 v)"
  define dB where "dB = (if c \<le> 0 then - 100 else rnd64 (rnd64 (20 * rnd64 (c - 1)) * 2))"
  have "requests (fst (obs_Execute env e action)) =
          requests e @ [(''SetInputVolume'', [(''inputName'', JString src), (''inputVolumeDb'', JFloat dB)])]"
    using setVolume_requests [of e action env] obs_Execute_volume [of e action env] assms
    by (auto simp: Let_def dB_def c_def min_def max_def)
  moreover have "v \<le> 0 \<longrightarrow> dB = - 100" by (simp add: dB_def c_def max_def min_def)
  moreover have "0 < v \<and> v \<le> 1 \<longrightarrow>
                    dB = rnd64 (rnd64 (20 * rnd64 (v - 1)) * 2)
                    \<and> \<bar>dB - 20 * (v - 1) * 2\<bar> \<le> 1 / 2 ^ 46"
  proof
    assume a: "0 < v \<and> v \<le> 1"
    then have "c = v" by (simp add: c_def)
    with a have d: "dB = rnd64 (rnd64 (20 * rnd64 (v - 1)) * 2)"
      by (simp add: dB_def)
    from a have "\<bar>rnd64 (rnd64 (20 * rnd64 (v - 1)) * 2) - 20 * (v - 1) * 2\<bar> \<le> 1 / 2 ^ 46"
      by (intro volumeDb_near) simp_all
    with d show "dB = rnd64 (rnd64 (20 * rnd64 (v - 1)) * 2)
                    \<and> \<bar>dB - 20 * (v - 1) * 2\<bar> \<le> 1 / 2 ^ 46"
      by simp
  qed
  moreover have "1 < v \<longrightarrow> dB = 0" by (simp add: dB_def c_def max_def min_def)
  moreover have "v = 1 \<longrightarrow> dB = 0" by (simp add: dB_def c_def max_def min_def)
  moreover have "v = 1 / 2 \<longrightarrow> dB = - 20"
  proof
    assume "v = 1 / 2"
    then have h: "c = 1 / 2" by (simp add: c_def)
    show "dB = - 20" unfolding dB_def h by simp
  qed
  moreover have "v = 0 \<longrightarrow> dB = - 100" by (simp add: dB_def c_def max_def min_def)
  ultimately show ?thesis by blast
qed

theorem C7_obs_volume_mapping_witness:
  "requests (fst (obs_Execute C7_env C7_executor (C7_action 1))) =
     [(''SetInputVolume'', [(''inputName'', JString ''Mic''), (''inputVolumeDb'', JFloat 0)])]
   \<and> requests (fst (obs_Execute C7_env C7_executor (C7_action (1 / 2)))) =
     [(''SetInputVolume'', [(''inputName'', JString ''Mic''), (''inputVolumeDb'', JFloat (- 20))])]
   \<and> requests (fst (obs_Execute C7_env C7_executor (C7_action 0))) =
     [(''SetInputVolume'', [(''inputName'', JString ''Mic''), (''inputVolumeDb'', JFloat (- 100))])]
   \<and> requests (fst (obs_Execute C7_env C7_executor (C7_action (3602879701896397 / 2 ^ 55)))) =
     [(''SetInputVolume'', [(''inputName'', JString ''Mic''), (''inputVolumeDb'', JFloat (- 36))])]
   \<and> requests (fst (obs_Execute C7_env C7_executor (C7_action (5314247560297185 / 2 ^ 54)))) =
     [(''SetInputVolume'', [(''inputName'', JString ''Mic''),
                            (''inputVolumeDb'', JFloat (- 1984398585810125 / 2 ^ 46))])]"
proof -
  have 0: "enabled C7_executor" "Action (C7_action v) = ''obs.volume''" for v
    by (simp_all add: C7_executor_def C7_action_def)
  have 1: "connected C7_executor" by (simp add: C7_executor_def)
  have 2: "GetStringParam (C7_action v) ''source'' = ''Mic''" for v
    by (simp add: GetStringParam_def C7_action_def)
  have 3: "''Mic'' \<noteq> []" by simp
  have 4: "GetFloatParam (C7_action v) ''volume'' = v" for v
    by (simp add: GetFloatParam_def C7_action_def)
  have e: "requests C7_executor = []" by (simp add: C7_executor_def)
  from C7_obs_volume_mapping [OF 0(1) 1 0(2) 2 3 4, of C7_env 1]
  have a: "requests (fst (obs_Execute C7_env C7_executor (C7_action 1))) =
     [(''SetInputVolume'', [(''inputName'', JString ''Mic''), (''inputVolumeDb'', JFloat 0)])]"
    by (auto simp: e)
  from C7_obs_volume_mapping [OF 0(1) 1 0(2) 2 3 4, of C7_env "1 / 2"]
  have b: "requests (fst (obs_Execute C7_env C7_executor (C7_action (1 / 2)))) =
     [(''SetInputVolume'', [(''inputName'', JString ''Mic''), (''inputVolumeDb'', JFloat (- 20))])]"
    by (auto simp: e)
  from C7_obs_volume_mapping [OF 0(1) 1 0(2) 2 3 4, of C7_env 0]
  have c: "requests (fst (obs_Execute C7_env C7_executor (C7_action 0))) =
     [(''SetInputVolume'', [(''inputName'', JString ''Mic''), (''inputVolumeDb'', JFloat (- 100))])]"
    by (auto simp: e)
  have r: "(0::real) < 3602879701896397 / 2 ^ 55 \<and> (3602879701896397::real) / 2 ^ 55 \<le> 1"
          "(0::real) < 5314247560297185 / 2 ^ 54 \<and> (5314247560297185::real) / 2 ^ 54 \<le> 1"
    by simp_all
  from C7_obs_volume_mapping [OF 0(1) 1 0(2) 2 3 4, of C7_env "3602879701896397 / 2 ^ 55"] r(1)
  have d: "requests (fst (obs_Execute C7_env C7_executor (C7_action (3602879701896397 / 2 ^ 55)))) =
     [(''SetInputVolume'', [(''inputName'', JString ''Mic''), (''inputVolumeDb'', JFloat (- 36))])]"
    unfolding e volumeDb_tenth by auto
  from C7_obs_volume_mapping [OF 0(1) 1 0(2) 2 3 4, of C7_env "5314247560297185 / 2 ^ 54"] r(2)
  have f: "requests (fst (obs_Execute C7_env C7_executor (C7_action (5314247560297185 / 2 ^ 54)))) =
     [(''SetInputVolume'', [(''inputName'', JString ''Mic''),
                            (''inputVolumeDb'', JFloat (- 1984398585810125 / 2 ^ 46))])]"
    unfolding e volumeDb_0295(1) by auto
  from a b c d f show ?thesis by simp
qed

subsection \<open>The arithmetic evaluator\<close>

lemma ParseFloat_digit:
  "ParseFloat ''0'' = Some 0" "ParseFloat ''1'' = Some 1" "ParseFloat ''2'' = Some 2"
  "ParseFloat ''3'' = Some 3" "ParseFloat ''4'' = Some 4" "ParseFloat ''5'' = Some 5"
  "ParseFloat ''8'' = Some 8" "ParseFloat ''20'' = Some 20"
  by (simp_all add: ParseFloat_def Let_def isDigit_def decimal_def digitVal_def)

lemma ParseFloat_caret: "ParseFloat ''2^3'' = None"
  by (simp add: ParseFloat_def Let_def isDigit_def decimal_def digitVal_def)

text \<open>An operand that is not a double is rounded to the nearest one, as \<^verbatim>\<open>strconv\<close> does.\<close>

lemma ParseFloat_rounds: "ParseFloat ''9007199254740993'' = Some 9007199254740992"
proof -
  have r: "rnd64 9007199254740993 = 9007199254740992"
    using rnd64_binade [of 53 9007199254740993]
    by (simp add: roundHalfEven_def Let_def)
  show ?thesis
    by (simp add: ParseFloat_def Let_def isDigit_def decimal_def digitVal_def r)
qed

lemma fmt_g_4: "fmt_g 4 = Some ''4''"
  by (simp add: fmt_g_def fmt_d.simps digitChar_def)

lemmas pmd_unfold = parseAndMultiplyDivide_def TrimSpace_def isSpace_def Let_def mulDivLoop.simps
  continue_with_def finite64_def ParseFloat_digit ParseFloat_caret

lemma pmd_values:
  "parseAndMultiplyDivide ''2'' = Value 2"
  "parseAndMultiplyDivide ''5*8'' = Value 5"
  "parseAndMultiplyDivide ''20/4'' = Value 20"
  "parseAndMultiplyDivide ''4*4'' = Value 4"
  "parseAndMultiplyDivide ''1/0'' = Value 1"
  by (simp_all add: pmd_unfold)

lemma pmd_caret:
  "parseAndMultiplyDivide ''2^3'' = Failure (''n'' @ u_acute @ ''mero inv'' @ a_acute @ ''lido: 2^3'')"
  by (simp add: pmd_unfold)

lemmas flat_unfold = simpleEval_flat_def addSubLoop.simps continue_with_def finite64_def Let_def
  pmd_values pmd_caret

lemma flat_values:
  "simpleEval_flat ''2+2'' = Value 4"
  "simpleEval_flat ''2+3'' = Value 4"
  "simpleEval_flat ''5*8'' = Value 5"
  "simpleEval_flat ''20/4'' = Value 20"
  "simpleEval_flat ''4*4'' = Value 4"
  "simpleEval_flat ''1/0'' = Value 1"
  by (simp_all add: flat_unfold)

lemma flat_caret:
  "simpleEval_flat ''2^3'' = Failure (''n'' @ u_acute @ ''mero inv'' @ a_acute @ ''lido: 2^3'')"
  by (simp add: flat_unfold)

lemma simpleEval_no_paren: "LastIndex expr (CHR ''('') = None \<Longrightarrow> simpleEval expr = simpleEval_flat expr"
  by (subst simpleEval.simps) simp

lemma simpleEval_values:
  "simpleEval ''2+2'' = Value 4"
  "simpleEval ''2+3'' = Value 4"
  "simpleEval ''5*8'' = Value 5"
  "simpleEval ''20/4'' = Value 20"
  "simpleEval ''4*4'' = Value 4"
  "simpleEval ''1/0'' = Value 1"
  by (simp_all add: simpleEval_no_paren flat_values)

lemma simpleEval_caret:
  "simpleEval ''2^3'' = Failure (''n'' @ u_acute @ ''mero inv'' @ a_acute @ ''lido: 2^3'')"
  by (simp add: simpleEval_no_paren flat_caret)

lemma simpleEval_paren: "simpleEval ''(2+3)*4'' = Value 4"
  by (subst simpleEval.simps) (simp add: simpleEval_values fmt_g_4)

text \<open>
  C1. What the evaluator returns on the reference cases. \<open>2+2\<close> gives 4 and \<open>2^3\<close> fails
  with the numeric-parse error, as claimed. But \<open>5*8\<close> gives 5 (claimed 40), \<open>20/4\<close> gives 20
  (claimed 5), \<open>(2+3)*4\<close> gives 4 (claimed 20) and \<open>1/0\<close> gives 1 with a nil error (claimed a
  division-by-zero error): \<open>Split\<close> drops the operators, so the loops read the last byte
  of the previous operand where they expect \<open>*\<close>, \<open>/\<close>, \<open>+\<close> or \<open>-\<close>.
\<close>

theorem C1_evaluator_reference_cases:
  "evaluateExpression ''2+2'' = Value 4
   \<and> evaluateExpression ''5*8'' = Value 5
   \<and> evaluateExpression ''20/4'' = Value 20
   \<and> evaluateExpression ''(2+3)*4'' = Value 4
   \<and> evaluateExpression ''1/0'' = Value 1
   \<and> evaluateExpression ''2^3'' = Failure (''n'' @ u_acute @ ''mero inv'' @ a_acute @ ''lido: 2^3'')"
  by (simp add: evaluateExpression_def validChar_def simpleEval_values simpleEval_paren simpleEval_caret)

text \<open>Any input that contains a letter is rejected before evaluation.\<close>

lemma evaluateExpression_rejects_letter:
  assumes "c \<in> set expr" and "isLetter c"
  shows "evaluateExpression expr = Failure (''expresi'' @ o_acute @ ''n inv'' @ a_acute @ ''lida'')"
proof -
  have "\<not> validChar c" "c \<noteq> CHR '' ''"
    using assms(2) by (auto simp: isLetter_def validChar_def)
  with assms(1) have "c \<in> set (filter (\<lambda>c. c \<noteq> CHR '' '') expr)" by simp
  with \<open>\<not> validChar c\<close> have "\<not> list_all validChar (filter (\<lambda>c. c \<noteq> CHR '' '') expr)"
    by (auto simp: list_all_iff)
  then show ?thesis by (simp add: evaluateExpression_def)
qed

lemma Split_nonempty: "Split sep s \<noteq> []"
  by (induction s) (auto split: list.splits)

lemma Split_parts_no_sep: "p \<in> set (Split sep s) \<Longrightarrow> c \<in> set p \<Longrightarrow> \<not> sep c"
proof (induction s arbitrary: p)
  case Nil
  then show ?case by simp
next
  case (Cons x xs)
  show ?case
  proof (cases "sep x")
    case True
    with Cons.prems have "p = [] \<or> p \<in> set (Split sep xs)" by auto
    with Cons.prems(2) Cons.IH show ?thesis by auto
  next
    case False
    obtain q qs where q: "Split sep xs = q # qs"
      using Split_nonempty [of sep xs] by (cases "Split sep xs") auto
    with False Cons.prems(1) have "p = x # q \<or> p \<in> set qs" by auto
    then show ?thesis
    proof
      assume "p = x # q"
      with Cons.prems(2) have "c = x \<or> c \<in> set q" by auto
      then show ?thesis using False Cons.IH [of q] q by auto
    next
      assume "p \<in> set qs"
      then show ?thesis using Cons.IH [of p] Cons.prems(2) q by auto
    qed
  qed
qed

text \<open>
  On operands that contain neither \<open>*\<close> nor \<open>/\<close>, as \<open>Split\<close> delivers them, the loop of
  \<open>parseAndMultiplyDivide\<close> applies no operator and never reports a division by zero.
\<close>

lemma mulDivLoop_applies_nothing:
  assumes "\<forall>p \<in> set parts. CHR ''*'' \<notin> set p \<and> CHR ''/'' \<notin> set p"
  shows "(mulDivLoop parts i r = Value v \<longrightarrow> v = r)
         \<and> mulDivLoop parts i r \<noteq> Failure (''divisi'' @ o_acute @ ''n entre cero'')"
  using assms
proof (induction parts i r rule: mulDivLoop.induct)
  case (1 parts i result)
  show ?case
  proof (cases "i < length parts \<and> i \<noteq> 0 \<and> parts ! (i - 1) \<noteq> []")
    case False
    then show ?thesis
      by (subst (1 2) mulDivLoop.simps) (auto simp: Let_def)
  next
    case True
    then have "parts ! (i - 1) \<in> set parts" by (intro nth_mem) arith
    moreover have "last (parts ! (i - 1)) \<in> set (parts ! (i - 1))" using True by simp
    ultimately have op: "[last (parts ! (i - 1))] \<noteq> ''*''" "[last (parts ! (i - 1))] \<noteq> ''/''"
      using "1.prems" by auto
    show ?thesis
    proof (cases "ParseFloat (parts ! i)")
      case None
      then show ?thesis
        using True op
        by (subst (1 2) mulDivLoop.simps)
           (simp add: Let_def o_acute_def u_acute_def)
    next
      case (Some nextVal)
      have eq: "mulDivLoop parts i result = mulDivLoop parts (i + 2) result"
        using True op Some by (subst mulDivLoop.simps) (simp add: Let_def)
      have "(mulDivLoop parts (i + 2) result = Value v \<longrightarrow> v = result)
         \<and> mulDivLoop parts (i + 2) result \<noteq> Failure (''divisi'' @ o_acute @ ''n entre cero'')"
        using True op Some "1.prems"
        by (intro "1.IH"(3) [where x = "[last (parts ! (i - 1))]" and xa = "parts ! i"]) simp_all
      then show ?thesis unfolding eq .
    qed
  qed
qed

lemma parseAndMultiplyDivide_first_operand:
  "(parseAndMultiplyDivide expr = Value v \<longrightarrow>
      ParseFloat (hd (Split (\<lambda>c. c = CHR ''*'' \<or> c = CHR ''/'') (TrimSpace expr))) = Some v)
   \<and> parseAndMultiplyDivide expr \<noteq> Failure (''divisi'' @ o_acute @ ''n entre cero'')"
proof -
  let ?parts = "Split (\<lambda>c. c = CHR ''*'' \<or> c = CHR ''/'') (TrimSpace expr)"
  have no: "\<forall>p \<in> set ?parts. CHR ''*'' \<notin> set p \<and> CHR ''/'' \<notin> set p"
    using Split_parts_no_sep [of _ "\<lambda>c. c = CHR ''*'' \<or> c = CHR ''/''" "TrimSpace expr"] by blast
  have hd: "?parts ! 0 = hd ?parts"
    using Split_nonempty [of "\<lambda>c. c = CHR ''*'' \<or> c = CHR ''/''" "TrimSpace expr"]
    by (simp add: hd_conv_nth)
  show ?thesis
    using mulDivLoop_applies_nothing [OF no]
    by (auto simp: parseAndMultiplyDivide_def Let_def hd o_acute_def i_acute_def u_acute_def
             split: option.splits)
qed

subsection \<open>Registry dispatch\<close>

lemma Registry_Execute_unavailable:
  assumes "FindExecutor r (Action a) = Inr exec" and "\<not> IsAvailable exec (self exec)"
  shows "Registry_Execute r a =
           (r, NewErrorResult (''executor '' @ Name exec @ '' is not available''),
            Some (''executor '' @ Name exec @ '' is not available''))"
  using assms by (simp add: Registry_Execute_def Let_def)

lemma sendRequest_dials: "dials (fst (sendRequest env e T d)) = dials e"
  by (simp add: sendRequest_def Let_def split: send_outcome.split)

lemma Connect_dials: "\<not> connected e \<Longrightarrow> dials (fst (Connect env e)) = dials e + 1"
  by (simp add: Connect_def Let_def split: connect_outcome.split)

lemma Connect_failed:
  "\<not> connected e \<Longrightarrow> dialOutcome env = DialError m \<Longrightarrow>
   obs_Execute env (e\<lparr>enabled := True\<rparr>) a =
     (e\<lparr>enabled := True, dials := dials e + 1\<rparr>,
      NewErrorResult (''failed to connect to OBS: '' @ m), Some (''failed to connect to OBS: '' @ m))"
  by (simp add: obs_Execute_def Connect_def Let_def)

text \<open>
  C9. When the executor that matches the action reports unavailable, \<open>Registry.Execute\<close>
  returns the "executor ... is not available" error and leaves every executor as it was:
  the result does not depend on the executor's \<open>Execute\<close>, which is not invoked. For the
  OBS executor, which is available only when connected, a dispatched \<open>obs.*\<close> action
  while disconnected therefore never reaches the lazy \<open>Connect\<close> of its \<open>Execute\<close>.
\<close>

theorem C9_registry_skips_unavailable_executor:
  "(\<forall>exec. FindExecutor r (Action a) = Inr exec \<and> \<not> IsAvailable exec (self exec) \<longrightarrow>
      Registry_Execute r a =
        (r, NewErrorResult (''executor '' @ Name exec @ '' is not available''),
         Some (''executor '' @ Name exec @ '' is not available'')))
   \<and> (FindExecutor ro (Action a) = Inr (obs_as_Executor env e) \<and> \<not> connected e \<longrightarrow>
      Registry_Execute ro a =
        (ro, NewErrorResult ''executor obs is not available'', Some ''executor obs is not available''))"
proof (intro conjI allI impI)
  fix exec
  assume "FindExecutor r (Action a) = Inr exec \<and> \<not> IsAvailable exec (self exec)"
  then show "Registry_Execute r a =
        (r, NewErrorResult (''executor '' @ Name exec @ '' is not available''),
         Some (''executor '' @ Name exec @ '' is not available''))"
    using Registry_Execute_unavailable by blast
next
  assume h: "FindExecutor ro (Action a) = Inr (obs_as_Executor env e) \<and> \<not> connected e"
  then have "\<not> IsAvailable (obs_as_Executor env e) (self (obs_as_Executor env e))"
    by (simp add: obs_as_Executor_def obs_IsAvailable_def)
  with h Registry_Execute_unavailable [of ro a "obs_as_Executor env e"]
  show "Registry_Execute ro a =
        (ro, NewErrorResult ''executor obs is not available'', Some ''executor obs is not available'')"
    by (simp add: obs_as_Executor_def)
qed

theorem C9_registry_skips_unavailable_executor_witness:
  "FindExecutor C9_registry (Action C9_action) = Inr (obs_as_Executor C9_env C9_obs)
   \<and> \<not> connected C9_obs
   \<and> Registry_Execute C9_registry C9_action =
        (C9_registry, NewErrorResult ''executor obs is not available'', Some ''executor obs is not available'')
   \<and> dials (fst (obs_Execute C9_env C9_obs C9_action)) = 1"
proof -
  have f: "FindExecutor C9_registry (Action C9_action) = Inr (obs_as_Executor C9_env C9_obs)"
    by (simp add: C9_registry_def Register_def NewRegistry_def C9_action_def obs_as_Executor_def
        obs_CanHandle_def)
  have c: "\<not> connected C9_obs" by (simp add: C9_obs_def)
  have d: "dials (fst (obs_Execute C9_env C9_obs C9_action)) = 1"
    by (simp add: obs_Execute_def Connect_def C9_env_def C9_obs_def C9_action_def setScene_def
        GetStringParam_def sendRequest_def Let_def)
  from C9_registry_skips_unavailable_executor [of C9_registry C9_action C9_registry C9_env C9_obs] f c d
  show ?thesis by blast
qed

subsection \<open>Brain: degraded mode\<close>

text \<open>
  C6. For every input text, when the Brain has no language-model provider or the
  provider reports unavailable, \<open>ProcessCommand\<close> returns the fixed degraded-mode message
  with a nil error; \<open>Complete\<close> is not called, whatever it would have returned.
\<close>

theorem C6_degraded_mode:
  "(llmProvider b = None \<longrightarrow>
      ProcessCommand b text =
        Returned \<lparr>ret_brain = b, ret_response = degraded_message, ret_err = None, ret_calls = []\<rparr>)
   \<and> (\<forall>p. llmProvider b = Some p \<and> \<not> llm_IsAvailable p \<longrightarrow>
      ProcessCommand b text =
        Returned \<lparr>ret_brain = b, ret_response = degraded_message, ret_err = None,
                  ret_calls = [CallIsAvailable]\<rparr>)"
  by (simp add: ProcessCommand_def)

theorem C6_degraded_mode_witness:
  "ProcessCommand C6_brain ''cambia a la escena juego'' =
     Returned \<lparr>ret_brain = C6_brain, ret_response = degraded_message, ret_err = None,
               ret_calls = [CallIsAvailable]\<rparr>
   \<and> ProcessCommand (C6_brain\<lparr>llmProvider := None\<rparr>) ''cambia a la escena juego'' =
     Returned \<lparr>ret_brain = C6_brain\<lparr>llmProvider := None\<rparr>, ret_response = degraded_message,
               ret_err = None, ret_calls = []\<rparr>"
proof -
  have 1: "llmProvider C6_brain = Some C6_provider \<and> \<not> llm_IsAvailable C6_provider"
    by (simp add: C6_brain_def C6_provider_def)
  have 2: "llmProvider (C6_brain\<lparr>llmProvider := None\<rparr>) = None" by simp
  from C6_degraded_mode [of C6_brain "''cambia a la escena juego''"] 1
       C6_degraded_mode [of "C6_brain\<lparr>llmProvider := None\<rparr>" "''cambia a la escena juego''"] 2
  show ?thesis by blast
qed

subsection \<open>Configuration defaults\<close>

lemma validation_errors_DefaultConfig: "validation_errors DefaultConfig = []"
  by (simp add: validation_errors_def DefaultConfig_def)

lemma Validate_DefaultConfig: "Validate DefaultConfig = None"
  by (simp add: Validate_def validation_errors_DefaultConfig)

text \<open>
  C5. \<open>Load\<close> with no explicit path, when no configuration file is on the search path,
  returns the default tree without error; in that tree the audio sample rate is 16000,
  the VAD silence threshold 1500 ms, the LLM provider \<open>ollama\<close> at
  \<open>http://localhost:11434\<close> with model \<open>llama3.2:3b\<close>, the TTS provider \<open>piper\<close>; and
  \<open>Validate\<close> accepts the tree as it is.
\<close>

theorem C5_load_defaults:
  "(found_on_search_path w = None \<longrightarrow> Load w [] = Inr DefaultConfig)
   \<and> Audio_SampleRate (Audio DefaultConfig) = 16000
   \<and> VAD_SilenceThresholdMs (Audio_VAD (Audio DefaultConfig)) = 1500
   \<and> LLM_Provider (LLM DefaultConfig) = ''ollama''
   \<and> Ollama_URL (LLM_Ollama (LLM DefaultConfig)) = ''http://localhost:11434''
   \<and> Ollama_Model (LLM_Ollama (LLM DefaultConfig)) = ''llama3.2:3b''
   \<and> TTS_Provider (TTS DefaultConfig) = ''piper''
   \<and> Validate DefaultConfig = None"
proof -
  have "found_on_search_path w = None \<longrightarrow> Load w [] = Inr DefaultConfig"
    by (simp add: Load_def ReadInConfig_def)
  moreover have "Audio_SampleRate (Audio DefaultConfig) = 16000"
    and "VAD_SilenceThresholdMs (Audio_VAD (Audio DefaultConfig)) = 1500"
    and "LLM_Provider (LLM DefaultConfig) = ''ollama''"
    and "Ollama_URL (LLM_Ollama (LLM DefaultConfig)) = ''http://localhost:11434''"
    and "Ollama_Model (LLM_Ollama (LLM DefaultConfig)) = ''llama3.2:3b''"
    and "TTS_Provider (TTS DefaultConfig) = ''piper''"
    by (simp_all add: DefaultConfig_def)
  ultimately show ?thesis using Validate_DefaultConfig by simp
qed

theorem C5_load_defaults_witness:
  "found_on_search_path C5_world = None \<and> Load C5_world [] = Inr DefaultConfig
   \<and> Validate DefaultConfig = None"
proof -
  have "found_on_search_path C5_world = None" by (simp add: C5_world_def)
  with C5_load_defaults [of C5_world] show ?thesis by simp
qed

subsection \<open>Pipeline: stopping\<close>

lemma Stop_twice: "Stop p = Inr p1 \<Longrightarrow> Stop p1 = Inl ''close of closed channel''"
  by (auto simp: Stop_def close_chan_def split: if_splits)

lemma Stop_open:
  "\<not> chan_closed (stopChan p) \<Longrightarrow> Stop p = Inr (p\<lparr>stopChan := (stopChan p)\<lparr>chan_closed := True\<rparr>\<rparr>)"
  by (simp add: Stop_def close_chan_def)

text \<open>
  C10. \<open>Stop\<close> is not idempotent. On a new pipeline the first call closes the stop
  channel; from then on the stop case of the main loop's \<open>select\<close> can proceed, and the
  loop returns when it is taken. Any second call panics with "close of closed channel".
\<close>

theorem C10_Stop_not_idempotent:
  "Stop (NewPipeline c) = Inr ((NewPipeline c)\<lparr>stopChan := (make_chan 0)\<lparr>chan_closed := True\<rparr>\<rparr>)
   \<and> CaseStop \<notin> set (ready_cases ctx_done (NewPipeline c))
   \<and> (\<forall>p p1. Stop p = Inr p1 \<longrightarrow>
         chan_closed (stopChan p1)
       \<and> CaseStop \<in> set (ready_cases ctx_done p1)
       \<and> snd (run_body env p1 CaseStop)
       \<and> Stop p1 = Inl ''close of closed channel'')"
proof (intro conjI allI impI)
  show "Stop (NewPipeline c) = Inr ((NewPipeline c)\<lparr>stopChan := (make_chan 0)\<lparr>chan_closed := True\<rparr>\<rparr>)"
    by (simp add: Stop_def close_chan_def NewPipeline_def make_chan_def)
  show "CaseStop \<notin> set (ready_cases ctx_done (NewPipeline c))"
    by (simp add: ready_cases_def recv_ready_def NewPipeline_def make_chan_def)
next
  fix p p1
  assume s: "Stop p = Inr p1"
  then show "chan_closed (stopChan p1)"
    by (auto simp: Stop_def close_chan_def split: if_splits)
  then show "CaseStop \<in> set (ready_cases ctx_done p1)"
    by (simp add: ready_cases_def recv_ready_def)
  show "snd (run_body env p1 CaseStop)" by simp
  from s show "Stop p1 = Inl ''close of closed channel''" by (rule Stop_twice)
qed

theorem C10_Stop_not_idempotent_witness:
  "Stop (NewPipeline DefaultConfig) =
     Inr ((NewPipeline DefaultConfig)\<lparr>stopChan := (make_chan 0)\<lparr>chan_closed := True\<rparr>\<rparr>)
   \<and> Stop ((NewPipeline DefaultConfig)\<lparr>stopChan := (make_chan 0)\<lparr>chan_closed := True\<rparr>\<rparr>) =
     Inl ''close of closed channel''"
proof -
  from C10_Stop_not_idempotent [of DefaultConfig False C10_env]
  show ?thesis by blast
qed

subsection \<open>Pipeline: finalizing a recording\<close>

lemma setState_fields [simp]:
  "hasSpeech (setState p s) = hasSpeech p"
  "speechStart (setState p s) = speechStart p"
  "audioBuffer (setState p s) = audioBuffer p"
  "cfg (setState p s) = cfg p"
  "state (setState p s) = s"
  "onError (setState p s) = onError p"
  "onTranscript (setState p s) = onTranscript p"
  "onResponse (setState p s) = onResponse p"
  by (simp_all add: setState_def emit_def Let_def)

lemma setState_events:
  "events (setState p s) =
     events p @ (if state p \<noteq> s \<and> onStateChange p then [EvStateChange s] else [])"
  by (simp add: setState_def emit_def Let_def)

lemma emit_events: "events (emit b ev p) = events p @ (if b then [ev] else [])"
  by (simp add: emit_def)

lemma processRecordedAudio_transcribes:
  assumes "audioBuffer p \<noteq> []" and "\<not> (hasSpeech p \<and> \<not> IsZero (speechStart p))"
  shows "snd (processRecordedAudio env p) \<noteq> NoAudio"
    and "snd (processRecordedAudio env p) \<noteq> SpeechTooShort"
    and "EvTranscribe (audioBuffer p) \<in> set (drop (length (events p)) (events (fst (processRecordedAudio env p))))"
  using assms
  by (auto simp: processRecordedAudio_def Let_def setState_events emit_events
           split: sum.split prod.split option.split)

lemma wrap64_range: "- (2 ^ 63) \<le> wrap64 n" "wrap64 n < 2 ^ 63"
  by (simp_all add: wrap64_def)

lemma wrap64_id: "- (2 ^ 63) \<le> n \<Longrightarrow> n < 2 ^ 63 \<Longrightarrow> wrap64 n = n"
  by (simp add: wrap64_def)

text \<open>For every minimum the configuration can sensibly hold, the product does not wrap.\<close>

lemma Milliseconds_id: "\<bar>ms\<bar> \<le> 9223372036854 \<Longrightarrow> Milliseconds ms = ms * 1000000"
  unfolding Milliseconds_def by (rule wrap64_id) simp_all

lemma Since_less: "Since now t < Milliseconds ms \<Longrightarrow> now - t < Milliseconds ms"
  using wrap64_range [of "ms * 1000000"] by (simp add: Since_def Milliseconds_def min_def split: if_splits)

lemma processRecordedAudio_too_short:
  assumes "snd (processRecordedAudio env p) = SpeechTooShort"
  shows "hasSpeech p \<and> \<not> IsZero (speechStart p)
         \<and> clock env - speechStart p < wrap64 (VAD_MinSpeechMs (Audio_VAD (Audio (cfg p))) * 1000000)"
proof -
  from assms have "hasSpeech p \<and> \<not> IsZero (speechStart p)
         \<and> Since (clock env) (speechStart p) < Milliseconds (VAD_MinSpeechMs (Audio_VAD (Audio (cfg p))))"
    by (auto simp: processRecordedAudio_def Let_def split: sum.splits prod.splits option.splits if_splits)
  then show ?thesis using Since_less [of "clock env" "speechStart p"] by (simp add: Milliseconds_def)
qed

lemma handleAudio_recording_no_vad:
  assumes "\<not> VAD_Enabled (Audio_VAD (Audio (cfg q)))" and "state q = StateRecording"
  shows "handleAudio t q a = q\<lparr>audioBuffer := audioBuffer q @ a\<rparr>"
  using assms by (simp add: handleAudio_def Let_def)

lemma feed_recording_no_vad:
  assumes "\<not> VAD_Enabled (Audio_VAD (Audio (cfg q)))" and "state q = StateRecording"
  shows "feed q chunks = q\<lparr>audioBuffer := audioBuffer q @ concat (map snd chunks)\<rparr>"
  using assms
proof (induction chunks arbitrary: q)
  case Nil
  then show ?case by (simp add: feed_def)
next
  case (Cons ch chunks)
  obtain t a where ch: "ch = (t, a)" by (cases ch)
  let ?q1 = "q\<lparr>audioBuffer := audioBuffer q @ a\<rparr>"
  have "feed q (ch # chunks) = feed (handleAudio t q a) chunks"
    by (simp add: feed_def ch)
  also have "\<dots> = feed ?q1 chunks"
    using handleAudio_recording_no_vad [OF Cons.prems] by simp
  also have "\<dots> = ?q1\<lparr>audioBuffer := audioBuffer ?q1 @ concat (map snd chunks)\<rparr>"
    using Cons.prems by (intro Cons.IH) simp_all
  finally show ?case by (simp add: ch)
qed

lemma startRecording_fields [simp]:
  "state (startRecording p) = StateRecording"
  "hasSpeech (startRecording p) = False"
  "audioBuffer (startRecording p) = []"
  "cfg (startRecording p) = cfg p"
  by (simp_all add: startRecording_def)

lemma recording_without_vad:
  assumes "\<not> VAD_Enabled (Audio_VAD (Audio (cfg p)))"
  shows "\<not> hasSpeech (feed (startRecording p) chunks)"
    and "audioBuffer (feed (startRecording p) chunks) = concat (map snd chunks)"
  using feed_recording_no_vad [of "startRecording p" chunks] assms by simp_all

text \<open>
  C8. In \<open>processRecordedAudio\<close> a recording is dropped as too short only when a speech
  onset was flagged (\<open>hasSpeech\<close> with a non-zero \<open>speechStart\<close>) and the time since the
  onset is below the configured minimum, a 64-bit count of nanoseconds: the plain product
  \<open>MinSpeechMs * 1000000\<close> for every minimum up to 9223372036854 ms, the wrapped product
  beyond. When no onset was flagged,
  every non-empty buffer is handed to the speech-to-text provider, whatever the clock and
  the configured minimum say. In particular with VAD disabled: after \<open>startRecording\<close>,
  the frames fed to \<open>handleAudio\<close> never set \<open>hasSpeech\<close>, and the whole recording is
  transcribed.
\<close>

theorem C8_min_speech_floor_needs_onset:
  "(snd (processRecordedAudio env p) = SpeechTooShort \<longrightarrow>
      hasSpeech p \<and> \<not> IsZero (speechStart p)
      \<and> clock env - speechStart p < wrap64 (VAD_MinSpeechMs (Audio_VAD (Audio (cfg p))) * 1000000)
      \<and> (\<bar>VAD_MinSpeechMs (Audio_VAD (Audio (cfg p)))\<bar> \<le> 9223372036854 \<longrightarrow>
           clock env - speechStart p < VAD_MinSpeechMs (Audio_VAD (Audio (cfg p))) * 1000000))
   \<and> (audioBuffer p \<noteq> [] \<and> \<not> (hasSpeech p \<and> \<not> IsZero (speechStart p)) \<longrightarrow>
      snd (processRecordedAudio env p) \<noteq> NoAudio
      \<and> snd (processRecordedAudio env p) \<noteq> SpeechTooShort
      \<and> EvTranscribe (audioBuffer p)
          \<in> set (drop (length (events p)) (events (fst (processRecordedAudio env p)))))
   \<and> (\<not> VAD_Enabled (Audio_VAD (Audio (cfg p))) \<and> concat (map snd chunks) \<noteq> [] \<longrightarrow>
      \<not> hasSpeech (feed (startRecording p) chunks)
      \<and> snd (processRecordedAudio env (feed (startRecording p) chunks)) \<noteq> SpeechTooShort
      \<and> EvTranscribe (concat (map snd chunks))
          \<in> set (drop (length (events (feed (startRecording p) chunks)))
                   (events (fst (processRecordedAudio env (feed (startRecording p) chunks))))))"
proof -
  have A: "snd (processRecordedAudio env p) = SpeechTooShort \<longrightarrow>
      hasSpeech p \<and> \<not> IsZero (speechStart p)
      \<and> clock env - speechStart p < wrap64 (VAD_MinSpeechMs (Audio_VAD (Audio (cfg p))) * 1000000)
      \<and> (\<bar>VAD_MinSpeechMs (Audio_VAD (Audio (cfg p)))\<bar> \<le> 9223372036854 \<longrightarrow>
           clock env - speechStart p < VAD_MinSpeechMs (Audio_VAD (Audio (cfg p))) * 1000000)"
    using processRecordedAudio_too_short [of env p]
      Milliseconds_id [of "VAD_MinSpeechMs (Audio_VAD (Audio (cfg p)))"]
    by (auto simp: Milliseconds_def)
  have B: "audioBuffer p \<noteq> [] \<and> \<not> (hasSpeech p \<and> \<not> IsZero (speechStart p)) \<longrightarrow>
      snd (processRecordedAudio env p) \<noteq> NoAudio
      \<and> snd (processRecordedAudio env p) \<noteq> SpeechTooShort
      \<and> EvTranscribe (audioBuffer p)
          \<in> set (drop (length (events p)) (events (fst (processRecordedAudio env p))))"
    using processRecordedAudio_transcribes [of p env] by blast
  have C: "\<not> VAD_Enabled (Audio_VAD (Audio (cfg p))) \<and> concat (map snd chunks) \<noteq> [] \<longrightarrow>
      \<not> hasSpeech (feed (startRecording p) chunks)
      \<and> snd (processRecordedAudio env (feed (startRecording p) chunks)) \<noteq> SpeechTooShort
      \<and> EvTranscribe (concat (map snd chunks))
          \<in> set (drop (length (events (feed (startRecording p) chunks)))
                   (events (fst (processRecordedAudio env (feed (startRecording p) chunks)))))"
  proof
    assume a: "\<not> VAD_Enabled (Audio_VAD (Audio (cfg p))) \<and> concat (map snd chunks) \<noteq> []"
    define q where "q = feed (startRecording p) chunks"
    from a recording_without_vad [of p chunks]
    have h: "\<not> hasSpeech q" and b: "audioBuffer q = concat (map snd chunks)"
      by (simp_all add: q_def)
    from a b h have pre: "audioBuffer q \<noteq> []" "\<not> (hasSpeech q \<and> \<not> IsZero (speechStart q))"
      by simp_all
    have "snd (processRecordedAudio env q) \<noteq> SpeechTooShort"
      using processRecordedAudio_transcribes(2) [OF pre] .
    moreover have "EvTranscribe (concat (map snd chunks))
          \<in> set (drop (length (events q)) (events (fst (processRecordedAudio env q))))"
      using processRecordedAudio_transcribes(3) [OF pre, of env] b by simp
    ultimately show "\<not> hasSpeech (feed (startRecording p) chunks)
      \<and> snd (processRecordedAudio env (feed (startRecording p) chunks)) \<noteq> SpeechTooShort
      \<and> EvTranscribe (concat (map snd chunks))
          \<in> set (drop (length (events (feed (startRecording p) chunks)))
                   (events (fst (processRecordedAudio env (feed (startRecording p) chunks)))))"
      using h unfolding q_def by blast
  qed
  from A B C show ?thesis by (intro conjI)
qed

theorem C8_min_speech_floor_needs_onset_witness:
  "snd (processRecordedAudio C8_env C8_short) = SpeechTooShort
   \<and> hasSpeech C8_short \<and> \<not> IsZero (speechStart C8_short)
   \<and> audioBuffer C8_silent = [1, 0] \<and> \<not> hasSpeech C8_silent
   \<and> snd (processRecordedAudio C8_env C8_silent) \<noteq> SpeechTooShort
   \<and> EvTranscribe [1, 0]
          \<in> set (drop (length (events C8_silent)) (events (fst (processRecordedAudio C8_env C8_silent))))
   \<and> \<not> VAD_Enabled (Audio_VAD (Audio (cfg (NewPipeline C8_config))))
   \<and> concat (map snd C8_chunks) = [1, 0]
   \<and> \<not> hasSpeech (feed (startRecording (NewPipeline C8_config)) C8_chunks)
   \<and> snd (processRecordedAudio C8_env (feed (startRecording (NewPipeline C8_config)) C8_chunks)) \<noteq> SpeechTooShort
   \<and> EvTranscribe [1, 0]
          \<in> set (drop (length (events (feed (startRecording (NewPipeline C8_config)) C8_chunks)))
                   (events (fst (processRecordedAudio C8_env (feed (startRecording (NewPipeline C8_config)) C8_chunks)))))"
proof -
  have s: "snd (processRecordedAudio C8_env C8_short) = SpeechTooShort"
    by (simp add: processRecordedAudio_def C8_short_def C8_env_def NewPipeline_def DefaultConfig_def
        IsZero_def Let_def Since_def Milliseconds_def wrap64_def)
  from C8_min_speech_floor_needs_onset [of C8_env C8_short "[]"] s
  have a: "hasSpeech C8_short \<and> \<not> IsZero (speechStart C8_short)" by blast
  have n: "audioBuffer C8_silent = [1, 0]" "\<not> hasSpeech C8_silent"
    by (simp_all add: C8_silent_def NewPipeline_def)
  from C8_min_speech_floor_needs_onset [of C8_env C8_silent "[]"] n
  have b: "snd (processRecordedAudio C8_env C8_silent) \<noteq> SpeechTooShort
           \<and> EvTranscribe [1, 0]
          \<in> set (drop (length (events C8_silent)) (events (fst (processRecordedAudio C8_env C8_silent))))"
    by simp
  have 1: "\<not> VAD_Enabled (Audio_VAD (Audio (cfg (NewPipeline C8_config))))"
    by (simp add: NewPipeline_def C8_config_def)
  have 2: "concat (map snd C8_chunks) = [1, 0]" by (simp add: C8_chunks_def)
  from C8_min_speech_floor_needs_onset [of C8_env "NewPipeline C8_config" C8_chunks] 1 2
  have c: "\<not> hasSpeech (feed (startRecording (NewPipeline C8_config)) C8_chunks)
   \<and> snd (processRecordedAudio C8_env (feed (startRecording (NewPipeline C8_config)) C8_chunks)) \<noteq> SpeechTooShort
   \<and> EvTranscribe [1, 0]
          \<in> set (drop (length (events (feed (startRecording (NewPipeline C8_config)) C8_chunks)))
                   (events (fst (processRecordedAudio C8_env (feed (startRecording (NewPipeline C8_config)) C8_chunks)))))"
    by simp
  from s a n b 1 2 c show ?thesis by blast
qed

subsection \<open>Music playlist navigation\<close>


text \<open>
  \<open>next\<close> computes the wrapped index only to name the track it reports: it stores
  nothing, and leaves the index to the playback loop. On a single track the loop's
  increment then moves the index to 1, past the end, and the loop returns: playback stops
  where the comment \<^verbatim>\<open>// Loop back\<close> announces a wrap to 0.
\<close>

lemma next_keeps_index: "currentIdx (fst (next e)) = currentIdx e"
  by (simp add: next_def kill_current_def Let_def)

lemma next_single_track_stops:
  assumes "length (playlist e) = 1" and "currentIdx e = 0"
  shows "currentIdx (fst (playLoop_track_ended (fst (next e)))) = 1"
    and "snd (playLoop_track_ended (fst (next e))) = None"
    and "\<not> isPlaying (fst (playLoop_track_ended (fst (next e))))"
  using assms
  by (simp_all add: next_def kill_current_def Let_def playLoop_track_ended_def playLoop_head_def)




text \<open>
  On a single track the clamp leaves the index at 0, and the call then reads
  \<^verbatim>\<open>e.playlist[e.currentIdx+1]\<close>, one past the only track: it panics instead of returning.
\<close>

lemma previous_single_track_panics:
  assumes "length (playlist e) = 1" and "currentIdx e = 0"
  shows "currentIdx (fst (previous e)) = 0" and "snd (previous e) = Inl ''index out of range''"
  using assms by (simp_all add: previous_def kill_current_def Let_def)





subsection \<open>Twitch token refresh\<close>

lemma is_refresh_api [simp]: "\<not> is_refresh (api_request_of e method (CHR ''/'' # endpoint) body)"
  by (simp add: is_refresh_def api_request_of_def twitchAPIURL_def twitchAuthURL_def)


lemma apiRequest_Suc:
  "apiRequest (Suc n) env (e, sent) method endpoint body =
     (case NewRequest_error env method (twitchAPIURL @ endpoint) of
        Some er \<Rightarrow> Some (e, sent, Inl (''failed to create request: '' @ er))
      | None \<Rightarrow>
          (case Do env sent (api_request_of e method endpoint body) of
             Inl er \<Rightarrow> Some (e, sent @ [api_request_of e method endpoint body], Inl (''request failed: '' @ er))
           | Inr resp \<Rightarrow>
               (case resp_body resp of
                  Inl (er, partial) \<Rightarrow>
                    Some (e, sent @ [api_request_of e method endpoint body],
                          Inl (''failed to read response: '' @ er))
                | Inr respBody \<Rightarrow>
                    if resp_status resp = 401 then
                      (case refreshAccessToken env (e, sent @ [api_request_of e method endpoint body]) of
                         (e1, sent1, Some er) \<Rightarrow>
                           Some (e1, sent1, Inl (''unauthorized and failed to refresh token: '' @ er))
                       | (e1, sent1, None) \<Rightarrow> apiRequest n env (e1, sent1) method endpoint body)
                    else if resp_status resp \<ge> 400 then
                      Some (e, sent @ [api_request_of e method endpoint body],
                            Inl (''API error '' @ fmt_d (resp_status resp) @ '': '' @ respBody))
                    else Some (e, sent @ [api_request_of e method endpoint body], Inr respBody))))"
  by (simp add: Let_def split: option.split)


text \<open>More allowed calls do not change a result.\<close>

lemma apiRequest_mono:
  "apiRequest n env st method endpoint body = Some r \<Longrightarrow>
   apiRequest (n + k) env st method endpoint body = Some r"
proof (induction n arbitrary: st)
  case 0
  then show ?case by simp
next
  case (Suc n)
  obtain e sent where st: "st = (e, sent)" by (cases st)
  from Suc.prems show ?case
    unfolding st add_Suc apiRequest_Suc
    by (auto split: option.splits sum.splits prod.splits if_splits dest: Suc.IH)
qed

text \<open>Against a platform that answers 401 every time, the call never returns.\<close>

lemma apiRequest_never_returns:
  "refreshToken e \<noteq> [] \<Longrightarrow>
   apiRequest n C2_env_401 (e, sent) method (CHR ''/'' # endpoint) body = None"
proof (induction n arbitrary: e sent)
  case 0
  then show ?case by simp
next
  case (Suc n)
  let ?req = "api_request_of e method (CHR ''/'' # endpoint) body"
  have d: "Do C2_env_401 sent ?req = Inr \<lparr>resp_status = 401, resp_body = Inr []\<rparr>"
    by (simp add: C2_env_401_def)
  have r: "refreshAccessToken C2_env_401 (e, sent @ [?req]) =
             (e\<lparr>accessToken := ''t'', refreshToken := ''r''\<rparr>,
              sent @ [?req,
                \<lparr>req_method = ''POST'', req_url = twitchAuthURL @ ''/token'',
                 req_headers = [(''Content-Type'', ''application/x-www-form-urlencoded'')],
                 req_body = FormBody [(''grant_type'', ''refresh_token''),
                                      (''refresh_token'', refreshToken e),
                                      (''client_id'', clientID e),
                                      (''client_secret'', clientSecret e)]\<rparr>], None)"
    using Suc.prems by (simp add: refreshAccessToken_def C2_env_401_def Let_def is_refresh_def)
  have n: "NewRequest_error C2_env_401 method (twitchAPIURL @ CHR ''/'' # endpoint) = None"
    by (simp add: C2_env_401_def)
  show ?case
    unfolding apiRequest_Suc n d r
    by (simp add: Suc.IH)
qed



end
